theory Spec2Isabelle
  imports Main "HOL-Library.Multiset"
begin

section \<open>TalaTrivia: the data model (app/models.py, app/schemas.py)\<close>

text \<open>
  Python \<open>int\<close> is \<^typ>\<open>int\<close>. A Python \<open>str\<close> is the \<^typ>\<open>string\<close> of its UTF-8 bytes:
  the encoding is injective, so \<open>==\<close> on \<open>str\<close> is equality of the byte strings.
  A \<open>Dict[str, str]\<close> is an association list. Timestamps filled in by the store
  (\<open>server_default=func.now()\<close>) are a natural number handed to the operation.
\<close>

record Usuario =
  usr_id :: int
  usr_nombre :: string
  usr_email :: string

record Pregunta =
  prg_id :: int
  prg_texto_pregunta :: string
  prg_opciones :: "(string \<times> string) list"
  prg_respuesta_correcta :: string
  prg_dificultad :: string

record Trivia =
  trv_id :: int
  trv_nombre :: string
  trv_descripcion :: "string option"
  trv_fecha_creacion :: nat

record TriviaPregunta =
  tp_id :: int
  tp_trivia_id :: int
  tp_pregunta_id :: int

record TriviaUsuario =
  tu_id :: int
  tu_trivia_id :: int
  tu_usuario_id :: int

record Participacion =
  par_id :: int
  par_usuario_id :: int
  par_trivia_id :: int
  par_pregunta_id :: int
  par_respuesta_dada :: string
  par_es_correcta :: int
  par_puntaje_obtenido :: int
  par_fecha_respuesta :: nat

record UsuarioCreate =
  uc_nombre :: string
  uc_email :: string

record PreguntaCreate =
  pc_texto_pregunta :: string
  pc_opciones :: "(string \<times> string) list"
  pc_respuesta_correcta :: string
  pc_dificultad :: string

record TriviaCreate =
  tc_nombre :: string
  tc_descripcion :: "string option"
  tc_pregunta_ids :: "int list"
  tc_usuario_ids :: "int list"

record PreguntaJugador =
  pj_id :: int
  pj_texto_pregunta :: string
  pj_opciones :: "(string \<times> string) list"

record ParticipacionCreate =
  pac_usuario_id :: int
  pac_trivia_id :: int
  pac_pregunta_id :: int
  pac_respuesta_dada :: string

record RankingItem =
  ri_posicion :: int
  ri_usuario_id :: int
  ri_usuario_nombre :: string
  ri_puntaje_total :: int

record RankingResponse =
  rr_trivia_id :: int
  rr_trivia_nombre :: string
  rr_ranking :: "RankingItem list"

record Puntaje =
  pt_usuario_id :: int
  pt_trivia_id :: int
  pt_puntaje_total :: int
  pt_total_respuestas :: int
  pt_respuestas_correctas :: int

text \<open>
  The session's database: one list of rows per table, in insertion order.
  \<open>query(..).filter(P).all()\<close> is \<^const>\<open>filter\<close>, \<open>.first()\<close> is \<^const>\<open>find\<close>.
\<close>

record db =
  usuarios :: "Usuario list"
  preguntas :: "Pregunta list"
  trivias :: "Trivia list"
  trivia_preguntas :: "TriviaPregunta list"
  trivia_usuarios :: "TriviaUsuario list"
  participaciones :: "Participacion list"

definition empty_db :: db where
  "empty_db = \<lparr>usuarios = [], preguntas = [], trivias = [], trivia_preguntas = [],
     trivia_usuarios = [], participaciones = []\<rparr>"

text \<open>
  The integer primary key the store generates on insert: one more than the largest key
  of the table, 1 for an empty table. (A table would need \<open>2 ^ 63 - 1\<close> inserts before
  such a key stops being a signed 64-bit integer; no property below relies on generated
  keys being in range.)
\<close>

definition next_id :: "int list \<Rightarrow> int" where
  "next_id ids = (case ids of [] \<Rightarrow> 1 | x # xs \<Rightarrow> fold max xs x + 1)"

text \<open>
  \<open>HTTPException(status_code, detail)\<close>. Each message of main.py is one constructor of
  \<open>detail\<close>; the f-strings keep the id they print. \<open>AttributeError\<close> is what
  Python raises on \<open>None.attr\<close> when a \<open>.first()\<close> that the code does not test
  finds no row. \<open>OverflowError\<close> is what the sqlite3 driver raises when a query binds
  a Python \<open>int\<close> that is not a signed 64-bit integer ("Python int too large to convert
  to SQLite INTEGER"). \<open>OperationalError\<close> is what the store raises when one statement
  has more bound parameters than it allows ("too many SQL variables"); the statement
  is refused before any parameter is bound. None of the three is caught by an endpoint,
  so the request ends with status 500 and nothing is committed.
\<close>

datatype detail =
    EmailYaRegistrado
  | UsuarioNoEncontrado int
  | RespuestaNoEnOpciones
  | DificultadInvalida
  | PreguntaNoEncontrada int
  | AlgunaPreguntaNoExiste
  | AlgunUsuarioNoExiste
  | TriviaNoEncontrada int
  | UsuarioNoAsignado
  | PreguntaNoPertenece
  | YaRespondida

datatype error =
    HTTPException (status_code: nat) (detail: detail)
  | AttributeError
  | OverflowError
  | OperationalError

text \<open>
  The values an \<open>INTEGER\<close> column holds and a query parameter may carry. The ids of a
  request are checked where the code first puts them into a query; an id read back from
  a row is an \<open>INTEGER\<close> of the store already.
\<close>

definition fits_int64 :: "int \<Rightarrow> bool" where
  "fits_int64 i = (- (2 ^ 63) \<le> i \<and> i < 2 ^ 63)"

abbreviation HTTP_400_BAD_REQUEST :: nat where "HTTP_400_BAD_REQUEST \<equiv> 400"
abbreviation HTTP_403_FORBIDDEN :: nat where "HTTP_403_FORBIDDEN \<equiv> 403"
abbreviation HTTP_404_NOT_FOUND :: nat where "HTTP_404_NOT_FOUND \<equiv> 404"

text \<open>The three difficulty names, as UTF-8: "f\'acil", "medio", "dif\'icil".\<close>

definition facil :: string where
  "facil = [CHR ''f'', CHR 0xC3, CHR 0xA1, CHR ''c'', CHR ''i'', CHR ''l'']"

definition medio :: string where
  "medio = ''medio''"

definition dificil :: string where
  "dificil = [CHR ''d'', CHR ''i'', CHR ''f'', CHR 0xC3, CHR 0xAD, CHR ''c'', CHR ''i'', CHR ''l'']"

section \<open>The operations (app/main.py)\<close>

subsection \<open>Users\<close>

definition crear_usuario :: "UsuarioCreate \<Rightarrow> db \<Rightarrow> (error + Usuario) \<times> db" where
  "crear_usuario usuario db =
     (case find (\<lambda>u. usr_email u = uc_email usuario) (usuarios db) of
        Some usuario_existente \<Rightarrow>
          (Inl (HTTPException HTTP_400_BAD_REQUEST EmailYaRegistrado), db)
      | None \<Rightarrow>
          (let nuevo_usuario = \<lparr>usr_id = next_id (map usr_id (usuarios db)),
                 usr_nombre = uc_nombre usuario, usr_email = uc_email usuario\<rparr>
           in (Inr nuevo_usuario, db\<lparr>usuarios := usuarios db @ [nuevo_usuario]\<rparr>)))"

definition listar_usuarios :: "db \<Rightarrow> Usuario list" where
  "listar_usuarios db = usuarios db"

definition obtener_usuario :: "int \<Rightarrow> db \<Rightarrow> error + Usuario" where
  "obtener_usuario usuario_id db =
     (if \<not> fits_int64 usuario_id then Inl OverflowError
      else case find (\<lambda>u. usr_id u = usuario_id) (usuarios db) of
        None \<Rightarrow> Inl (HTTPException HTTP_404_NOT_FOUND (UsuarioNoEncontrado usuario_id))
      | Some usuario \<Rightarrow> Inr usuario)"

subsection \<open>Questions\<close>

definition dificultades_validas :: "string list" where
  "dificultades_validas = [facil, medio, dificil]"

definition crear_pregunta :: "PreguntaCreate \<Rightarrow> db \<Rightarrow> (error + Pregunta) \<times> db" where
  "crear_pregunta pregunta db =
     (if pc_respuesta_correcta pregunta \<notin> set (map fst (pc_opciones pregunta))
      then (Inl (HTTPException HTTP_400_BAD_REQUEST RespuestaNoEnOpciones), db)
      else if pc_dificultad pregunta \<notin> set dificultades_validas
      then (Inl (HTTPException HTTP_400_BAD_REQUEST DificultadInvalida), db)
      else
        (let nueva_pregunta = \<lparr>prg_id = next_id (map prg_id (preguntas db)),
               prg_texto_pregunta = pc_texto_pregunta pregunta,
               prg_opciones = pc_opciones pregunta,
               prg_respuesta_correcta = pc_respuesta_correcta pregunta,
               prg_dificultad = pc_dificultad pregunta\<rparr>
         in (Inr nueva_pregunta, db\<lparr>preguntas := preguntas db @ [nueva_pregunta]\<rparr>)))"

definition listar_preguntas :: "db \<Rightarrow> Pregunta list" where
  "listar_preguntas db = preguntas db"

definition obtener_pregunta :: "int \<Rightarrow> db \<Rightarrow> error + Pregunta" where
  "obtener_pregunta pregunta_id db =
     (if \<not> fits_int64 pregunta_id then Inl OverflowError
      else case find (\<lambda>q. prg_id q = pregunta_id) (preguntas db) of
        None \<Rightarrow> Inl (HTTPException HTTP_404_NOT_FOUND (PreguntaNoEncontrada pregunta_id))
      | Some pregunta \<Rightarrow> Inr pregunta)"

subsection \<open>Trivias\<close>

text \<open>
  The two loops of \<open>crear_trivia\<close> add one link row per listed id, each with the next
  free key of its table. Each \<open>IN\<close> query has one bound parameter per id of its list:
  it is refused when the list is longer than \<open>max_variables\<close>, the most parameters the
  store accepts in one statement (a constant of the SQLite library the service runs on,
  taken as a parameter here), and raises when an id does not fit. The query on users runs
  only after the check on questions.
\<close>

fun asignar_preguntas :: "int \<Rightarrow> int list \<Rightarrow> TriviaPregunta list \<Rightarrow> TriviaPregunta list" where
  "asignar_preguntas trivia_id [] rows = rows"
| "asignar_preguntas trivia_id (pregunta_id # ids) rows =
     asignar_preguntas trivia_id ids
       (rows @ [\<lparr>tp_id = next_id (map tp_id rows), tp_trivia_id = trivia_id,
                  tp_pregunta_id = pregunta_id\<rparr>])"

fun asignar_usuarios :: "int \<Rightarrow> int list \<Rightarrow> TriviaUsuario list \<Rightarrow> TriviaUsuario list" where
  "asignar_usuarios trivia_id [] rows = rows"
| "asignar_usuarios trivia_id (usuario_id # ids) rows =
     asignar_usuarios trivia_id ids
       (rows @ [\<lparr>tu_id = next_id (map tu_id rows), tu_trivia_id = trivia_id,
                  tu_usuario_id = usuario_id\<rparr>])"

definition crear_trivia ::
  "nat \<Rightarrow> nat \<Rightarrow> TriviaCreate \<Rightarrow> db \<Rightarrow> (error + Trivia) \<times> db" where
  "crear_trivia max_variables now trivia db =
     (if max_variables < length (tc_pregunta_ids trivia) then (Inl OperationalError, db)
      else if \<not> list_all fits_int64 (tc_pregunta_ids trivia) then (Inl OverflowError, db)
      else
     (let preguntas_encontradas =
            filter (\<lambda>q. prg_id q \<in> set (tc_pregunta_ids trivia)) (preguntas db)
      in if length preguntas_encontradas \<noteq> length (tc_pregunta_ids trivia)
         then (Inl (HTTPException HTTP_400_BAD_REQUEST AlgunaPreguntaNoExiste), db)
         else if max_variables < length (tc_usuario_ids trivia)
         then (Inl OperationalError, db)
         else if \<not> list_all fits_int64 (tc_usuario_ids trivia) then (Inl OverflowError, db)
         else
          (let usuarios_encontrados =
                 filter (\<lambda>u. usr_id u \<in> set (tc_usuario_ids trivia)) (usuarios db)
           in if length usuarios_encontrados \<noteq> length (tc_usuario_ids trivia)
              then (Inl (HTTPException HTTP_400_BAD_REQUEST AlgunUsuarioNoExiste), db)
              else
               (let nueva_trivia = \<lparr>trv_id = next_id (map trv_id (trivias db)),
                      trv_nombre = tc_nombre trivia,
                      trv_descripcion = tc_descripcion trivia,
                      trv_fecha_creacion = now\<rparr>
                in (Inr nueva_trivia,
                    db\<lparr>trivias := trivias db @ [nueva_trivia],
                       trivia_preguntas :=
                         asignar_preguntas (trv_id nueva_trivia) (tc_pregunta_ids trivia)
                           (trivia_preguntas db),
                       trivia_usuarios :=
                         asignar_usuarios (trv_id nueva_trivia) (tc_usuario_ids trivia)
                           (trivia_usuarios db)\<rparr>)))))"

definition listar_trivias :: "db \<Rightarrow> Trivia list" where
  "listar_trivias db = trivias db"

definition obtener_trivia :: "int \<Rightarrow> db \<Rightarrow> error + Trivia" where
  "obtener_trivia trivia_id db =
     (if \<not> fits_int64 trivia_id then Inl OverflowError
      else case find (\<lambda>t. trv_id t = trivia_id) (trivias db) of
        None \<Rightarrow> Inl (HTTPException HTTP_404_NOT_FOUND (TriviaNoEncontrada trivia_id))
      | Some trivia \<Rightarrow> Inr trivia)"

subsection \<open>Participation\<close>

text \<open>
  The loop of \<open>ver_trivia_jugador\<close>: a link whose question is not found is skipped
  (\<open>if pregunta:\<close>).
\<close>

fun preguntas_jugador_loop ::
  "db \<Rightarrow> TriviaPregunta list \<Rightarrow> PreguntaJugador list \<Rightarrow> PreguntaJugador list" where
  "preguntas_jugador_loop db [] preguntas_jugador = preguntas_jugador"
| "preguntas_jugador_loop db (tp # tps) preguntas_jugador =
     (case find (\<lambda>q. prg_id q = tp_pregunta_id tp) (preguntas db) of
        None \<Rightarrow> preguntas_jugador_loop db tps preguntas_jugador
      | Some pregunta \<Rightarrow>
          preguntas_jugador_loop db tps
            (preguntas_jugador @
               [\<lparr>pj_id = prg_id pregunta,
                 pj_texto_pregunta = prg_texto_pregunta pregunta,
                 pj_opciones = prg_opciones pregunta\<rparr>]))"

definition ver_trivia_jugador :: "int \<Rightarrow> int \<Rightarrow> db \<Rightarrow> error + PreguntaJugador list" where
  "ver_trivia_jugador trivia_id usuario_id db =
     (if \<not> (fits_int64 trivia_id \<and> fits_int64 usuario_id) then Inl OverflowError
      else case find (\<lambda>a. tu_trivia_id a = trivia_id \<and> tu_usuario_id a = usuario_id)
             (trivia_usuarios db) of
        None \<Rightarrow> Inl (HTTPException HTTP_404_NOT_FOUND UsuarioNoAsignado)
      | Some asignacion \<Rightarrow>
          Inr (preguntas_jugador_loop db
                 (filter (\<lambda>tp. tp_trivia_id tp = trivia_id) (trivia_preguntas db)) []))"

definition puntajes :: "(string \<times> int) list" where
  "puntajes = [(facil, 1), (medio, 2), (dificil, 3)]"

definition puntajes_get :: "string \<Rightarrow> int \<Rightarrow> int" where
  "puntajes_get k dflt = (case map_of puntajes k of None \<Rightarrow> dflt | Some v \<Rightarrow> v)"

definition responder_pregunta ::
  "nat \<Rightarrow> int \<Rightarrow> ParticipacionCreate \<Rightarrow> db \<Rightarrow> (error + Participacion) \<times> db" where
  "responder_pregunta now trivia_id participacion db =
     (if \<not> fits_int64 trivia_id then (Inl OverflowError, db)
      else case find (\<lambda>t. trv_id t = trivia_id) (trivias db) of
        None \<Rightarrow> (Inl (HTTPException HTTP_404_NOT_FOUND (TriviaNoEncontrada trivia_id)), db)
      | Some trivia \<Rightarrow>
     (if \<not> fits_int64 (pac_usuario_id participacion) then (Inl OverflowError, db)
      else case find (\<lambda>a. tu_trivia_id a = trivia_id
                     \<and> tu_usuario_id a = pac_usuario_id participacion)
             (trivia_usuarios db) of
        None \<Rightarrow> (Inl (HTTPException HTTP_403_FORBIDDEN UsuarioNoAsignado), db)
      | Some asignacion \<Rightarrow>
     (if \<not> fits_int64 (pac_pregunta_id participacion) then (Inl OverflowError, db)
      else case find (\<lambda>tp. tp_trivia_id tp = trivia_id
                      \<and> tp_pregunta_id tp = pac_pregunta_id participacion)
             (trivia_preguntas db) of
        None \<Rightarrow> (Inl (HTTPException HTTP_400_BAD_REQUEST PreguntaNoPertenece), db)
      | Some pregunta_en_trivia \<Rightarrow>
     (case find (\<lambda>p. par_usuario_id p = pac_usuario_id participacion
                     \<and> par_trivia_id p = trivia_id
                     \<and> par_pregunta_id p = pac_pregunta_id participacion)
             (participaciones db) of
        Some participacion_existente \<Rightarrow>
          (Inl (HTTPException HTTP_400_BAD_REQUEST YaRespondida), db)
      | None \<Rightarrow>
     (case find (\<lambda>q. prg_id q = pac_pregunta_id participacion) (preguntas db) of
        None \<Rightarrow> (Inl AttributeError, db)
      | Some pregunta \<Rightarrow>
          (let es_correcta =
                 (if pac_respuesta_dada participacion = prg_respuesta_correcta pregunta
                  then 1 else 0 :: int);
               puntaje_obtenido =
                 (if es_correcta \<noteq> 0 then puntajes_get (prg_dificultad pregunta) 0 else 0);
               nueva_participacion =
                 \<lparr>par_id = next_id (map par_id (participaciones db)),
                  par_usuario_id = pac_usuario_id participacion,
                  par_trivia_id = trivia_id,
                  par_pregunta_id = pac_pregunta_id participacion,
                  par_respuesta_dada = pac_respuesta_dada participacion,
                  par_es_correcta = es_correcta,
                  par_puntaje_obtenido = puntaje_obtenido,
                  par_fecha_respuesta = now\<rparr>
           in (Inr nueva_participacion,
               db\<lparr>participaciones := participaciones db @ [nueva_participacion]\<rparr>)))))))"

definition obtener_puntaje_usuario :: "int \<Rightarrow> int \<Rightarrow> db \<Rightarrow> error + Puntaje" where
  "obtener_puntaje_usuario trivia_id usuario_id db =
     (if \<not> (fits_int64 trivia_id \<and> fits_int64 usuario_id) then Inl OverflowError
      else
      let ps = filter (\<lambda>p. par_trivia_id p = trivia_id \<and> par_usuario_id p = usuario_id)
                 (participaciones db);
          puntaje_total = sum_list (map par_puntaje_obtenido ps)
      in Inr \<lparr>pt_usuario_id = usuario_id,
              pt_trivia_id = trivia_id,
              pt_puntaje_total = puntaje_total,
              pt_total_respuestas = int (length ps),
              pt_respuestas_correctas =
                sum_list (map (\<lambda>p. 1) (filter (\<lambda>p. par_es_correcta p = 1) ps))\<rparr>)"

subsection \<open>Ranking\<close>

text \<open>
  The first loop of \<open>obtener_ranking\<close> builds one (usuario_id, usuario_nombre,
  puntaje_total) entry per assignment row; \<open>usuario.id\<close> on a user that is not found
  raises.
\<close>

type_synonym ranking_entry = "int \<times> string \<times> int"

fun ranking_items_loop ::
  "db \<Rightarrow> int \<Rightarrow> TriviaUsuario list \<Rightarrow> ranking_entry list \<Rightarrow> error + ranking_entry list" where
  "ranking_items_loop db trivia_id [] ranking_items = Inr ranking_items"
| "ranking_items_loop db trivia_id (asignacion # rest) ranking_items =
     (case find (\<lambda>u. usr_id u = tu_usuario_id asignacion) (usuarios db) of
        None \<Rightarrow> Inl AttributeError
      | Some usuario \<Rightarrow>
          (let ps = filter (\<lambda>p. par_trivia_id p = trivia_id \<and> par_usuario_id p = usr_id usuario)
                      (participaciones db);
               puntaje_total = sum_list (map par_puntaje_obtenido ps)
           in ranking_items_loop db trivia_id rest
                (ranking_items @ [(usr_id usuario, usr_nombre usuario, puntaje_total)])))"

text \<open>
  \<open>list.sort(key=..., reverse=True)\<close> is stable and descending: entries with equal keys
  keep their order. That is the stable ascending sort on the negated key.
\<close>

definition sort_reverse :: "ranking_entry list \<Rightarrow> ranking_entry list" where
  "sort_reverse items = sort_key (\<lambda>(uid, nombre, puntaje). - puntaje) items"

text \<open>The second loop: \<open>enumerate(ranking_items, start=1)\<close>.\<close>

fun ranking_final_loop :: "int \<Rightarrow> ranking_entry list \<Rightarrow> RankingItem list \<Rightarrow> RankingItem list" where
  "ranking_final_loop posicion [] ranking_final = ranking_final"
| "ranking_final_loop posicion ((uid, nombre, puntaje) # items) ranking_final =
     ranking_final_loop (posicion + 1) items
       (ranking_final @
          [\<lparr>ri_posicion = posicion, ri_usuario_id = uid, ri_usuario_nombre = nombre,
            ri_puntaje_total = puntaje\<rparr>])"

definition obtener_ranking :: "int \<Rightarrow> db \<Rightarrow> error + RankingResponse" where
  "obtener_ranking trivia_id db =
     (if \<not> fits_int64 trivia_id then Inl OverflowError
      else case find (\<lambda>t. trv_id t = trivia_id) (trivias db) of
        None \<Rightarrow> Inl (HTTPException HTTP_404_NOT_FOUND (TriviaNoEncontrada trivia_id))
      | Some trivia \<Rightarrow>
          (case ranking_items_loop db trivia_id
                  (filter (\<lambda>a. tu_trivia_id a = trivia_id) (trivia_usuarios db)) [] of
             Inl e \<Rightarrow> Inl e
           | Inr ranking_items \<Rightarrow>
               Inr \<lparr>rr_trivia_id = trivia_id,
                    rr_trivia_nombre = trv_nombre trivia,
                    rr_ranking = ranking_final_loop 1 (sort_reverse ranking_items) []\<rparr>))"

subsection \<open>Keys of the link and answer tables\<close>

definition tu_pairs :: "db \<Rightarrow> (int \<times> int) list" where
  "tu_pairs db = map (\<lambda>a. (tu_trivia_id a, tu_usuario_id a)) (trivia_usuarios db)"

definition tp_pairs :: "db \<Rightarrow> (int \<times> int) list" where
  "tp_pairs db = map (\<lambda>tp. (tp_trivia_id tp, tp_pregunta_id tp)) (trivia_preguntas db)"

definition par_triples :: "db \<Rightarrow> (int \<times> int \<times> int) list" where
  "par_triples db =
     map (\<lambda>p. (par_usuario_id p, par_trivia_id p, par_pregunta_id p)) (participaciones db)"

text \<open>
  What the schema of models.py promises and the endpoints maintain: primary keys are
  unique, link rows refer to existing rows, a user is linked to a trivia at most once,
  and every answer belongs to a user and a question of its trivia, with the ids its
  request passed through the queries.
\<close>

definition pk_ok :: "db \<Rightarrow> bool" where
  "pk_ok db = (distinct (map usr_id (usuarios db)) \<and> distinct (map prg_id (preguntas db))
     \<and> distinct (map trv_id (trivias db)))"

definition links_ok :: "db \<Rightarrow> bool" where
  "links_ok db =
     ((\<forall>(t, u) \<in> set (tu_pairs db).
          u \<in> set (map usr_id (usuarios db)) \<and> t \<in> set (map trv_id (trivias db)))
      \<and> (\<forall>(t, q) \<in> set (tp_pairs db).
          q \<in> set (map prg_id (preguntas db)) \<and> t \<in> set (map trv_id (trivias db)))
      \<and> distinct (tu_pairs db))"

definition participaciones_ok :: "db \<Rightarrow> bool" where
  "participaciones_ok db =
     ((\<forall>(u, t, q) \<in> set (par_triples db).
          (t, u) \<in> set (tu_pairs db) \<and> (t, q) \<in> set (tp_pairs db)
          \<and> fits_int64 u \<and> fits_int64 t \<and> fits_int64 q)
      \<and> distinct (par_triples db))"

definition wf_db :: "db \<Rightarrow> bool" where
  "wf_db db = (pk_ok db \<and> links_ok db \<and> participaciones_ok db)"

subsection \<open>Reachable states\<close>

text \<open>
  The states the service can be in: the empty database, and what the four writing
  endpoints leave behind. The other endpoints only read.
\<close>

inductive reachable :: "db \<Rightarrow> bool" where
  reachable_empty: "reachable empty_db"
| reachable_crear_usuario: "reachable db \<Longrightarrow> reachable (snd (crear_usuario usuario db))"
| reachable_crear_pregunta: "reachable db \<Longrightarrow> reachable (snd (crear_pregunta pregunta db))"
| reachable_crear_trivia: "reachable db \<Longrightarrow> reachable (snd (crear_trivia lim now trivia db))"
| reachable_responder:
    "reachable db \<Longrightarrow> reachable (snd (responder_pregunta now trivia_id participacion db))"

subsection \<open>A small run of the service\<close>

text \<open>
  Three users, two questions, one trivia with both questions and all three users; then
  Ana answers question 1 with "b" (wrong), Beto and Caro with "B" (right, medio).
\<close>

text \<open>
  \<open>SQLITE_MAX_VARIABLE_NUMBER\<close> as SQLite sets it by default since version 3.32 (999
  before; some distributions build with 250000). The run below uses it; the general
  properties of \<open>crear_trivia\<close> are stated for an arbitrary limit.
\<close>

definition sqlite_max_variable_number :: nat where
  "sqlite_max_variable_number = 32766"

definition pregunta_1 :: PreguntaCreate where
  "pregunta_1 = \<lparr>pc_texto_pregunta = ''Q1'', pc_opciones = [(''A'', ''x''), (''B'', ''y'')],
     pc_respuesta_correcta = ''B'', pc_dificultad = medio\<rparr>"

definition pregunta_2 :: PreguntaCreate where
  "pregunta_2 = \<lparr>pc_texto_pregunta = ''Q2'', pc_opciones = [(''A'', ''x''), (''B'', ''y'')],
     pc_respuesta_correcta = ''A'', pc_dificultad = dificil\<rparr>"

definition trivia_1 :: TriviaCreate where
  "trivia_1 = \<lparr>tc_nombre = ''RRHH'', tc_descripcion = None, tc_pregunta_ids = [1, 2],
     tc_usuario_ids = [1, 2, 3]\<rparr>"

definition demo_db0 :: db where
  "demo_db0 =
     snd (crear_trivia sqlite_max_variable_number 10 trivia_1
      (snd (crear_pregunta pregunta_2
       (snd (crear_pregunta pregunta_1
        (snd (crear_usuario \<lparr>uc_nombre = ''Caro'', uc_email = ''caro@example.com''\<rparr>
         (snd (crear_usuario \<lparr>uc_nombre = ''Beto'', uc_email = ''beto@example.com''\<rparr>
          (snd (crear_usuario \<lparr>uc_nombre = ''Ana'', uc_email = ''ana@example.com''\<rparr>
            empty_db)))))))))))"

definition respuesta :: "int \<Rightarrow> int \<Rightarrow> string \<Rightarrow> ParticipacionCreate" where
  "respuesta usuario_id pregunta_id dada =
     \<lparr>pac_usuario_id = usuario_id, pac_trivia_id = 1, pac_pregunta_id = pregunta_id,
      pac_respuesta_dada = dada\<rparr>"

definition demo_db :: db where
  "demo_db =
     snd (responder_pregunta 13 1 (respuesta 3 1 ''B'')
      (snd (responder_pregunta 12 1 (respuesta 2 1 ''B'')
       (snd (responder_pregunta 11 1 (respuesta 1 1 ''b'') demo_db0)))))"

section \<open>Properties\<close>

subsection \<open>Generated keys are fresh\<close>

lemma fold_max_ge_init: "(a::int) \<le> fold max xs a"
proof (induction xs arbitrary: a)
  case Nil
  then show ?case by simp
next
  case (Cons x xs)
  have "a \<le> max x a" by simp
  also have "\<dots> \<le> fold max xs (max x a)" by (rule Cons.IH)
  finally show ?case by simp
qed

lemma fold_max_ge_mem: "(y::int) \<in> set xs \<Longrightarrow> y \<le> fold max xs a"
proof (induction xs arbitrary: a)
  case Nil
  then show ?case by simp
next
  case (Cons x xs)
  show ?case
  proof (cases "y = x")
    case True
    have "y \<le> max x a" using True by simp
    also have "\<dots> \<le> fold max xs (max x a)" by (rule fold_max_ge_init)
    finally show ?thesis by simp
  next
    case False
    then have "y \<in> set xs" using Cons.prems by simp
    then show ?thesis using Cons.IH by simp
  qed
qed

lemma next_id_fresh: "next_id ids \<notin> set ids"
proof (cases ids)
  case Nil
  then show ?thesis by simp
next
  case (Cons x xs)
  have "\<forall>y \<in> set ids. y < next_id ids"
    using fold_max_ge_mem [of _ xs x] fold_max_ge_init [of x xs]
    by (auto simp: next_id_def Cons intro: le_less_trans)
  then show ?thesis by blast
qed

subsection \<open>Queries\<close>

lemma find_SomeD: "find P xs = Some x \<Longrightarrow> x \<in> set xs \<and> P x"
  by (induction xs) (auto split: if_splits)

lemma find_None_set: "(find P xs = None) = (\<forall>x \<in> set xs. \<not> P x)"
  by (induction xs) auto

lemma find_Some_ex: "(\<exists>x. find P xs = Some x) = (\<exists>x \<in> set xs. P x)"
  by (induction xs) auto

text \<open>
  The \<open>IN\<close> query of \<open>crear_trivia\<close> on a table with unique keys: it returns as many
  rows as ids were listed exactly when the ids are pairwise different and all present.
\<close>

lemma length_filter_mem:
  assumes "distinct (map f xs)"
  shows "length (filter (\<lambda>x. f x \<in> set ids) xs) = card (f ` set xs \<inter> set ids)"
proof -
  have d: "distinct (map f (filter (\<lambda>x. f x \<in> set ids) xs))"
    using assms by (rule distinct_map_filter)
  have "length (filter (\<lambda>x. f x \<in> set ids) xs) = length (map f (filter (\<lambda>x. f x \<in> set ids) xs))"
    by simp
  also have "\<dots> = card (set (map f (filter (\<lambda>x. f x \<in> set ids) xs)))"
    using d by (simp only: distinct_card)
  also have "set (map f (filter (\<lambda>x. f x \<in> set ids) xs)) = f ` set xs \<inter> set ids"
    by auto
  finally show ?thesis .
qed

lemma length_filter_mem_eq:
  assumes "distinct (map f xs)"
  shows "(length (filter (\<lambda>x. f x \<in> set ids) xs) = length ids)
         = (distinct ids \<and> set ids \<subseteq> f ` set xs)"
proof
  assume eq: "length (filter (\<lambda>x. f x \<in> set ids) xs) = length ids"
  have c: "card (f ` set xs \<inter> set ids) = length ids"
    using eq length_filter_mem [OF assms, of ids] by simp
  have le1: "card (f ` set xs \<inter> set ids) \<le> card (set ids)"
    by (rule card_mono) auto
  have le2: "card (set ids) \<le> length ids" by (rule card_length)
  from c le1 le2 have c2: "card (set ids) = length ids" by linarith
  then have dist: "distinct ids" by (simp add: card_distinct)
  from c c2 have "card (f ` set xs \<inter> set ids) = card (set ids)" by simp
  then have "f ` set xs \<inter> set ids = set ids"
    by (intro card_subset_eq) auto
  then show "distinct ids \<and> set ids \<subseteq> f ` set xs" using dist by blast
next
  assume h: "distinct ids \<and> set ids \<subseteq> f ` set xs"
  then have "f ` set xs \<inter> set ids = set ids" by blast
  then show "length (filter (\<lambda>x. f x \<in> set ids) xs) = length ids"
    using length_filter_mem [OF assms, of ids] h by (simp add: distinct_card)
qed


lemma find_tu_iff:
  "(find (\<lambda>a. tu_trivia_id a = t \<and> tu_usuario_id a = u) (trivia_usuarios db) = None)
   = ((t, u) \<notin> set (tu_pairs db))"
  by (auto simp: find_None_set tu_pairs_def)

lemma find_tp_iff:
  "(find (\<lambda>tp. tp_trivia_id tp = t \<and> tp_pregunta_id tp = q) (trivia_preguntas db) = None)
   = ((t, q) \<notin> set (tp_pairs db))"
  by (auto simp: find_None_set tp_pairs_def)

lemma find_par_iff:
  "(find (\<lambda>p. par_usuario_id p = u \<and> par_trivia_id p = t \<and> par_pregunta_id p = q)
      (participaciones db) = None)
   = ((u, t, q) \<notin> set (par_triples db))"
  by (auto simp: find_None_set par_triples_def)

lemma find_trivia_iff:
  "(find (\<lambda>tr. trv_id tr = t) (trivias db) = None) = (t \<notin> set (map trv_id (trivias db)))"
  by (auto simp: find_None_set)

lemma find_usuario_iff:
  "(find (\<lambda>x. usr_id x = u) (usuarios db) = None) = (u \<notin> set (map usr_id (usuarios db)))"
  by (auto simp: find_None_set)

lemma find_pregunta_iff:
  "(find (\<lambda>x. prg_id x = q) (preguntas db) = None) = (q \<notin> set (map prg_id (preguntas db)))"
  by (auto simp: find_None_set)

lemma asignar_usuarios_pairs:
  "map (\<lambda>a. (tu_trivia_id a, tu_usuario_id a)) (asignar_usuarios t ids rows)
   = map (\<lambda>a. (tu_trivia_id a, tu_usuario_id a)) rows @ map (Pair t) ids"
  by (induction ids arbitrary: rows) simp_all

lemma asignar_preguntas_pairs:
  "map (\<lambda>tp. (tp_trivia_id tp, tp_pregunta_id tp)) (asignar_preguntas t ids rows)
   = map (\<lambda>tp. (tp_trivia_id tp, tp_pregunta_id tp)) rows @ map (Pair t) ids"
  by (induction ids arbitrary: rows) simp_all

subsection \<open>What each writing endpoint does to the tables\<close>

lemma crear_usuario_db:
  "snd (crear_usuario req db) = db \<or>
   snd (crear_usuario req db)
     = db\<lparr>usuarios := usuarios db @ [\<lparr>usr_id = next_id (map usr_id (usuarios db)),
            usr_nombre = uc_nombre req, usr_email = uc_email req\<rparr>]\<rparr>"
  by (simp add: crear_usuario_def Let_def split: option.split)

lemma crear_pregunta_db:
  "snd (crear_pregunta req db) = db \<or>
   snd (crear_pregunta req db)
     = db\<lparr>preguntas := preguntas db @ [\<lparr>prg_id = next_id (map prg_id (preguntas db)),
               prg_texto_pregunta = pc_texto_pregunta req,
               prg_opciones = pc_opciones req,
               prg_respuesta_correcta = pc_respuesta_correcta req,
               prg_dificultad = pc_dificultad req\<rparr>]\<rparr>"
  by (simp add: crear_pregunta_def Let_def)

text \<open>
  \<open>crear_trivia\<close> and \<open>responder_pregunta\<close> as one chain of tests, each lookup replaced by
  the membership it decides.
\<close>

lemma crear_trivia_flat:
  assumes "pk_ok db"
  shows "crear_trivia lim now req db =
     (if lim < length (tc_pregunta_ids req) then (Inl OperationalError, db)
      else if \<not> list_all fits_int64 (tc_pregunta_ids req) then (Inl OverflowError, db)
      else if \<not> (distinct (tc_pregunta_ids req)
                  \<and> set (tc_pregunta_ids req) \<subseteq> set (map prg_id (preguntas db)))
      then (Inl (HTTPException HTTP_400_BAD_REQUEST AlgunaPreguntaNoExiste), db)
      else if lim < length (tc_usuario_ids req) then (Inl OperationalError, db)
      else if \<not> list_all fits_int64 (tc_usuario_ids req) then (Inl OverflowError, db)
      else if \<not> (distinct (tc_usuario_ids req)
                  \<and> set (tc_usuario_ids req) \<subseteq> set (map usr_id (usuarios db)))
      then (Inl (HTTPException HTTP_400_BAD_REQUEST AlgunUsuarioNoExiste), db)
      else (Inr \<lparr>trv_id = next_id (map trv_id (trivias db)), trv_nombre = tc_nombre req,
                 trv_descripcion = tc_descripcion req, trv_fecha_creacion = now\<rparr>,
            db\<lparr>trivias := trivias db @
                   [\<lparr>trv_id = next_id (map trv_id (trivias db)), trv_nombre = tc_nombre req,
                     trv_descripcion = tc_descripcion req, trv_fecha_creacion = now\<rparr>],
               trivia_preguntas :=
                 asignar_preguntas (next_id (map trv_id (trivias db))) (tc_pregunta_ids req)
                   (trivia_preguntas db),
               trivia_usuarios :=
                 asignar_usuarios (next_id (map trv_id (trivias db))) (tc_usuario_ids req)
                   (trivia_usuarios db)\<rparr>))"
proof -
  have dq: "distinct (map prg_id (preguntas db))" and du: "distinct (map usr_id (usuarios db))"
    using assms by (simp_all add: pk_ok_def)
  show ?thesis
    using length_filter_mem_eq [OF dq, of "tc_pregunta_ids req"]
          length_filter_mem_eq [OF du, of "tc_usuario_ids req"]
    by (simp add: crear_trivia_def Let_def)
qed

lemma crear_trivia_db:
  assumes "pk_ok db"
  shows "snd (crear_trivia lim now req db) = db \<or>
   (distinct (tc_pregunta_ids req) \<and> set (tc_pregunta_ids req) \<subseteq> set (map prg_id (preguntas db))
    \<and> distinct (tc_usuario_ids req) \<and> set (tc_usuario_ids req) \<subseteq> set (map usr_id (usuarios db))
    \<and> (\<exists>tr. trv_id tr = next_id (map trv_id (trivias db))
         \<and> trivias (snd (crear_trivia lim now req db)) = trivias db @ [tr]
         \<and> tu_pairs (snd (crear_trivia lim now req db))
             = tu_pairs db @ map (Pair (trv_id tr)) (tc_usuario_ids req)
         \<and> tp_pairs (snd (crear_trivia lim now req db))
             = tp_pairs db @ map (Pair (trv_id tr)) (tc_pregunta_ids req)
         \<and> usuarios (snd (crear_trivia lim now req db)) = usuarios db
         \<and> preguntas (snd (crear_trivia lim now req db)) = preguntas db
         \<and> participaciones (snd (crear_trivia lim now req db)) = participaciones db))"
  unfolding crear_trivia_flat [OF assms]
  by (simp add: tu_pairs_def tp_pairs_def asignar_usuarios_pairs asignar_preguntas_pairs)

lemma find_par_iff_not:
  "(find (\<lambda>p. par_usuario_id p = u \<and> par_trivia_id p = t \<and> par_pregunta_id p = q)
      (participaciones db) \<noteq> None)
   = ((u, t, q) \<in> set (par_triples db))"
  by (simp add: find_par_iff)

lemma responder_pregunta_flat:
  "responder_pregunta now t b db =
     (if \<not> fits_int64 t then (Inl OverflowError, db)
      else if t \<notin> set (map trv_id (trivias db))
      then (Inl (HTTPException HTTP_404_NOT_FOUND (TriviaNoEncontrada t)), db)
      else if \<not> fits_int64 (pac_usuario_id b) then (Inl OverflowError, db)
      else if (t, pac_usuario_id b) \<notin> set (tu_pairs db)
      then (Inl (HTTPException HTTP_403_FORBIDDEN UsuarioNoAsignado), db)
      else if \<not> fits_int64 (pac_pregunta_id b) then (Inl OverflowError, db)
      else if (t, pac_pregunta_id b) \<notin> set (tp_pairs db)
      then (Inl (HTTPException HTTP_400_BAD_REQUEST PreguntaNoPertenece), db)
      else if (pac_usuario_id b, t, pac_pregunta_id b) \<in> set (par_triples db)
      then (Inl (HTTPException HTTP_400_BAD_REQUEST YaRespondida), db)
      else (case find (\<lambda>q. prg_id q = pac_pregunta_id b) (preguntas db) of
              None \<Rightarrow> (Inl AttributeError, db)
            | Some pregunta \<Rightarrow>
                (Inr \<lparr>par_id = next_id (map par_id (participaciones db)),
                      par_usuario_id = pac_usuario_id b,
                      par_trivia_id = t,
                      par_pregunta_id = pac_pregunta_id b,
                      par_respuesta_dada = pac_respuesta_dada b,
                      par_es_correcta =
                        (if pac_respuesta_dada b = prg_respuesta_correcta pregunta
                         then 1 else 0),
                      par_puntaje_obtenido =
                        (if pac_respuesta_dada b = prg_respuesta_correcta pregunta
                         then puntajes_get (prg_dificultad pregunta) 0 else 0),
                      par_fecha_respuesta = now\<rparr>,
                 db\<lparr>participaciones := participaciones db @
                      [\<lparr>par_id = next_id (map par_id (participaciones db)),
                        par_usuario_id = pac_usuario_id b,
                        par_trivia_id = t,
                        par_pregunta_id = pac_pregunta_id b,
                        par_respuesta_dada = pac_respuesta_dada b,
                        par_es_correcta =
                          (if pac_respuesta_dada b = prg_respuesta_correcta pregunta
                           then 1 else 0),
                        par_puntaje_obtenido =
                          (if pac_respuesta_dada b = prg_respuesta_correcta pregunta
                           then puntajes_get (prg_dificultad pregunta) 0 else 0),
                        par_fecha_respuesta = now\<rparr>]\<rparr>)))"
  unfolding find_trivia_iff [symmetric] find_tu_iff [symmetric] find_tp_iff [symmetric]
    find_par_iff_not [symmetric] responder_pregunta_def Let_def
  by (simp split: option.split)

lemma responder_pregunta_Inl:
  "responder_pregunta now t req db = (Inl e, db') \<Longrightarrow> db' = db"
  unfolding responder_pregunta_flat
  by (simp split: if_splits option.splits)

lemma responder_pregunta_Inr:
  assumes "responder_pregunta now t req db = (Inr r, db')"
  shows "db' = db\<lparr>participaciones := participaciones db @ [r]\<rparr>"
    and "par_usuario_id r = pac_usuario_id req"
    and "par_trivia_id r = t"
    and "par_pregunta_id r = pac_pregunta_id req"
    and "t \<in> set (map trv_id (trivias db))"
    and "(t, pac_usuario_id req) \<in> set (tu_pairs db)"
    and "(t, pac_pregunta_id req) \<in> set (tp_pairs db)"
    and "(pac_usuario_id req, t, pac_pregunta_id req) \<notin> set (par_triples db)"
    and "fits_int64 t"
    and "fits_int64 (pac_usuario_id req)"
    and "fits_int64 (pac_pregunta_id req)"
proof -
  note h = assms [unfolded responder_pregunta_flat]
  show "db' = db\<lparr>participaciones := participaciones db @ [r]\<rparr>"
    using h by (auto split: if_splits option.splits)
  show "par_usuario_id r = pac_usuario_id req"
    using h by (auto split: if_splits option.splits)
  show "par_trivia_id r = t"
    using h by (auto split: if_splits option.splits)
  show "par_pregunta_id r = pac_pregunta_id req"
    using h by (auto split: if_splits option.splits)
  show "t \<in> set (map trv_id (trivias db))"
    using h by (simp split: if_splits)
  show "(t, pac_usuario_id req) \<in> set (tu_pairs db)"
    using h by (simp split: if_splits)
  show "(t, pac_pregunta_id req) \<in> set (tp_pairs db)"
    using h by (simp split: if_splits)
  show "(pac_usuario_id req, t, pac_pregunta_id req) \<notin> set (par_triples db)"
    using h by (simp split: if_splits)
  show "fits_int64 t"
    using h by (simp split: if_splits)
  show "fits_int64 (pac_usuario_id req)"
    using h by (simp split: if_splits)
  show "fits_int64 (pac_pregunta_id req)"
    using h by (simp split: if_splits)
qed

subsection \<open>Every reachable state is well formed\<close>

lemma wf_empty: "wf_db empty_db"
  by (simp add: wf_db_def pk_ok_def links_ok_def participaciones_ok_def empty_db_def
        tu_pairs_def tp_pairs_def par_triples_def)

lemma wf_crear_usuario:
  assumes "wf_db db"
  shows "wf_db (snd (crear_usuario req db))"
proof -
  let ?u = "\<lparr>usr_id = next_id (map usr_id (usuarios db)),
            usr_nombre = uc_nombre req, usr_email = uc_email req\<rparr>"
  have fresh: "next_id (map usr_id (usuarios db)) \<notin> set (map usr_id (usuarios db))"
    by (rule next_id_fresh)
  have "wf_db (db\<lparr>usuarios := usuarios db @ [?u]\<rparr>)"
    using assms fresh
    by (auto simp: wf_db_def pk_ok_def links_ok_def participaciones_ok_def
          tu_pairs_def tp_pairs_def par_triples_def)
  then show ?thesis
    using crear_usuario_db [of req db] assms by auto
qed

lemma wf_crear_pregunta:
  assumes "wf_db db"
  shows "wf_db (snd (crear_pregunta req db))"
proof -
  let ?q = "\<lparr>prg_id = next_id (map prg_id (preguntas db)),
               prg_texto_pregunta = pc_texto_pregunta req,
               prg_opciones = pc_opciones req,
               prg_respuesta_correcta = pc_respuesta_correcta req,
               prg_dificultad = pc_dificultad req\<rparr>"
  have fresh: "next_id (map prg_id (preguntas db)) \<notin> set (map prg_id (preguntas db))"
    by (rule next_id_fresh)
  have "wf_db (db\<lparr>preguntas := preguntas db @ [?q]\<rparr>)"
    using assms fresh
    by (auto simp: wf_db_def pk_ok_def links_ok_def participaciones_ok_def
          tu_pairs_def tp_pairs_def par_triples_def)
  then show ?thesis
    using crear_pregunta_db [of req db] assms by auto
qed

lemma wf_crear_trivia:
  assumes "wf_db db"
  shows "wf_db (snd (crear_trivia lim now req db))"
proof -
  have pk: "pk_ok db" and lk: "links_ok db" and pa: "participaciones_ok db"
    using assms by (simp_all add: wf_db_def)
  let ?db' = "snd (crear_trivia lim now req db)"
  let ?n = "next_id (map trv_id (trivias db))"
  have fresh: "?n \<notin> set (map trv_id (trivias db))" by (rule next_id_fresh)
  show ?thesis
  proof (cases "?db' = db")
    case True
    then show ?thesis using assms by simp
  next
    case False
    with crear_trivia_db [OF pk, of lim now req] obtain tr where
      dq: "distinct (tc_pregunta_ids req)"
      and sq: "set (tc_pregunta_ids req) \<subseteq> set (map prg_id (preguntas db))"
      and du: "distinct (tc_usuario_ids req)"
      and su: "set (tc_usuario_ids req) \<subseteq> set (map usr_id (usuarios db))"
      and tr: "trv_id tr = ?n"
      and t': "trivias ?db' = trivias db @ [tr]"
      and tu': "tu_pairs ?db' = tu_pairs db @ map (Pair (trv_id tr)) (tc_usuario_ids req)"
      and tp': "tp_pairs ?db' = tp_pairs db @ map (Pair (trv_id tr)) (tc_pregunta_ids req)"
      and u': "usuarios ?db' = usuarios db"
      and q': "preguntas ?db' = preguntas db"
      and p': "participaciones ?db' = participaciones db"
      by blast
    have pt': "par_triples ?db' = par_triples db"
      by (simp add: par_triples_def p')
    have pk': "pk_ok ?db'"
      using pk fresh by (simp add: pk_ok_def u' q' t' tr)
    have old_t: "\<forall>(t, u) \<in> set (tu_pairs db). t \<noteq> ?n"
      using lk fresh by (auto simp: links_ok_def)
    have dnew: "distinct (map (Pair ?n) (tc_usuario_ids req))"
      using du by (simp add: distinct_map inj_on_def)
    have dtu: "distinct (tu_pairs ?db')"
      using lk dnew old_t by (auto simp: links_ok_def tu' tr)
    have lk': "links_ok ?db'"
      unfolding links_ok_def
    proof (intro conjI)
      show "\<forall>(t, u)\<in>set (tu_pairs ?db').
              u \<in> set (map usr_id (usuarios ?db')) \<and> t \<in> set (map trv_id (trivias ?db'))"
        using lk su by (auto simp: links_ok_def tu' u' t')
      show "\<forall>(t, q)\<in>set (tp_pairs ?db').
              q \<in> set (map prg_id (preguntas ?db')) \<and> t \<in> set (map trv_id (trivias ?db'))"
        using lk sq by (auto simp: links_ok_def tp' q' t')
      show "distinct (tu_pairs ?db')" by (rule dtu)
    qed
    have pa': "participaciones_ok ?db'"
      using pa by (auto simp: participaciones_ok_def pt' tu' tp')
    show ?thesis using pk' lk' pa' by (simp add: wf_db_def)
  qed
qed

lemma wf_responder_pregunta:
  assumes "wf_db db"
  shows "wf_db (snd (responder_pregunta now t req db))"
proof (cases "fst (responder_pregunta now t req db)")
  case (Inl e)
  then have "responder_pregunta now t req db = (Inl e, snd (responder_pregunta now t req db))"
    by (metis prod.collapse)
  then have "snd (responder_pregunta now t req db) = db"
    by (rule responder_pregunta_Inl)
  then show ?thesis using assms by simp
next
  case (Inr r)
  let ?db' = "snd (responder_pregunta now t req db)"
  from Inr have eq: "responder_pregunta now t req db = (Inr r, ?db')"
    by (metis prod.collapse)
  note f = responder_pregunta_Inr [OF eq]
  have db': "?db' = db\<lparr>participaciones := participaciones db @ [r]\<rparr>" by (rule f(1))
  have pt': "par_triples ?db' = par_triples db @ [(pac_usuario_id req, t, pac_pregunta_id req)]"
    by (subst db') (simp add: par_triples_def f(2,3,4))
  have tu': "tu_pairs ?db' = tu_pairs db" by (subst db') (simp add: tu_pairs_def)
  have tp': "tp_pairs ?db' = tp_pairs db" by (subst db') (simp add: tp_pairs_def)
  have pk': "pk_ok ?db'"
    using assms by (subst db') (simp add: wf_db_def pk_ok_def)
  have lk0: "links_ok db" using assms by (simp add: wf_db_def)
  have lk': "links_ok ?db'"
    unfolding links_ok_def tu' tp' using lk0 by (subst (1 2 3 4) db') (simp add: links_ok_def)
  have pa': "participaciones_ok ?db'"
    using assms f(6,7,8,9,10,11) by (auto simp: wf_db_def participaciones_ok_def pt' tu' tp')
  show ?thesis using pk' lk' pa' by (simp add: wf_db_def)
qed

lemma reachable_wf: "reachable db \<Longrightarrow> wf_db db"
proof (induction rule: reachable.induct)
  case reachable_empty
  show ?case by (rule wf_empty)
next
  case (reachable_crear_usuario db usuario)
  then show ?case by (simp add: wf_crear_usuario)
next
  case (reachable_crear_pregunta db pregunta)
  then show ?case by (simp add: wf_crear_pregunta)
next
  case (reachable_crear_trivia db lim now trivia)
  then show ?case by (simp add: wf_crear_trivia)
next
  case (reachable_responder db now trivia_id participacion)
  then show ?case by (simp add: wf_responder_pregunta)
qed

subsection \<open>The small run, evaluated\<close>

lemmas eval_defs = demo_db0_def demo_db_def empty_db_def crear_usuario_def crear_pregunta_def
  crear_trivia_def responder_pregunta_def next_id_def Let_def pregunta_1_def pregunta_2_def
  trivia_1_def respuesta_def dificultades_validas_def facil_def medio_def dificil_def
  puntajes_def puntajes_get_def fits_int64_def sqlite_max_variable_number_def

lemma demo_db0_eq: "demo_db0 = \<lparr>usuarios =
       [\<lparr>usr_id = 1, usr_nombre = ''Ana'', usr_email = ''ana@example.com''\<rparr>,
        \<lparr>usr_id = 2, usr_nombre = ''Beto'', usr_email = ''beto@example.com''\<rparr>,
        \<lparr>usr_id = 3, usr_nombre = ''Caro'', usr_email = ''caro@example.com''\<rparr>],
     preguntas =
       [\<lparr>prg_id = 1, prg_texto_pregunta = ''Q1'',
          prg_opciones = [(''A'', ''x''), (''B'', ''y'')],
          prg_respuesta_correcta = ''B'', prg_dificultad = medio\<rparr>,
        \<lparr>prg_id = 2, prg_texto_pregunta = ''Q2'',
          prg_opciones = [(''A'', ''x''), (''B'', ''y'')],
          prg_respuesta_correcta = ''A'', prg_dificultad = dificil\<rparr>],
     trivias =
       [\<lparr>trv_id = 1, trv_nombre = ''RRHH'', trv_descripcion = None,
          trv_fecha_creacion = 10\<rparr>],
     trivia_preguntas =
       [\<lparr>tp_id = 1, tp_trivia_id = 1, tp_pregunta_id = 1\<rparr>,
        \<lparr>tp_id = 2, tp_trivia_id = 1, tp_pregunta_id = 2\<rparr>],
     trivia_usuarios =
       [\<lparr>tu_id = 1, tu_trivia_id = 1, tu_usuario_id = 1\<rparr>,
        \<lparr>tu_id = 2, tu_trivia_id = 1, tu_usuario_id = 2\<rparr>,
        \<lparr>tu_id = 3, tu_trivia_id = 1, tu_usuario_id = 3\<rparr>],
     participaciones = []\<rparr>"
  by (simp add: eval_defs)

lemma demo_db_eq: "demo_db = demo_db0\<lparr>participaciones :=
       [\<lparr>par_id = 1, par_usuario_id = 1, par_trivia_id = 1,
          par_pregunta_id = 1, par_respuesta_dada = ''b'',
          par_es_correcta = 0, par_puntaje_obtenido = 0,
          par_fecha_respuesta = 11\<rparr>,
        \<lparr>par_id = 2, par_usuario_id = 2, par_trivia_id = 1,
          par_pregunta_id = 1, par_respuesta_dada = ''B'',
          par_es_correcta = 1, par_puntaje_obtenido = 2,
          par_fecha_respuesta = 12\<rparr>,
        \<lparr>par_id = 3, par_usuario_id = 3, par_trivia_id = 1,
          par_pregunta_id = 1, par_respuesta_dada = ''B'',
          par_es_correcta = 1, par_puntaje_obtenido = 2,
          par_fecha_respuesta = 13\<rparr>]\<rparr>"
  by (simp add: demo_db_def demo_db0_eq responder_pregunta_def respuesta_def next_id_def
        puntajes_def puntajes_get_def Let_def medio_def facil_def dificil_def fits_int64_def)

lemma reachable_demo_db0: "reachable demo_db0"
  unfolding demo_db0_def by (intro reachable.intros)

lemma reachable_demo_db: "reachable demo_db"
  unfolding demo_db_def by (intro reachable.intros reachable_demo_db0)

lemma puntajes_get_cases:
  "puntajes_get d 0 =
     (if d = facil then 1 else if d = medio then 2 else if d = dificil then 3 else 0)"
  by (simp add: puntajes_get_def puntajes_def)

subsection \<open>Answering a question\<close>

lemma responder_pregunta_Inr_row:
  assumes "responder_pregunta now t b db = (Inr r, db')"
  shows "\<exists>pregunta. find (\<lambda>q. prg_id q = pac_pregunta_id b) (preguntas db) = Some pregunta
     \<and> par_es_correcta r =
         (if pac_respuesta_dada b = prg_respuesta_correcta pregunta then 1 else 0)
     \<and> par_puntaje_obtenido r =
         (if pac_respuesta_dada b = prg_respuesta_correcta pregunta
          then puntajes_get (prg_dificultad pregunta) 0 else 0)"
proof (cases "find (\<lambda>q. prg_id q = pac_pregunta_id b) (preguntas db)")
  case None
  then show ?thesis
    using assms unfolding responder_pregunta_flat by (simp split: if_splits)
next
  case (Some pregunta)
  then show ?thesis
    using assms unfolding responder_pregunta_flat by (auto split: if_splits)
qed

text \<open>
  C1. When \<open>responder_pregunta\<close> accepts a submission, the row it stores has
  \<open>es_correcta = 1\<close> exactly when \<open>respuesta_dada\<close> is equal, as a string, to the
  \<open>respuesta_correcta\<close> of the question, and \<open>0\<close> otherwise; the points are 1, 2, 3
  for the difficulties f\'acil, medio, dif\'icil when the answer is right, 0 for any other
  difficulty, and 0 whenever the answer is wrong.
\<close>

theorem responder_pregunta_score:
  assumes "responder_pregunta now trivia_id participacion db = (Inr r, db')"
  shows "\<exists>pregunta.
           find (\<lambda>q. prg_id q = pac_pregunta_id participacion) (preguntas db) = Some pregunta
         \<and> par_es_correcta r =
             (if pac_respuesta_dada participacion = prg_respuesta_correcta pregunta
              then 1 else 0)
         \<and> par_puntaje_obtenido r =
             (if pac_respuesta_dada participacion \<noteq> prg_respuesta_correcta pregunta then 0
              else if prg_dificultad pregunta = facil then 1
              else if prg_dificultad pregunta = medio then 2
              else if prg_dificultad pregunta = dificil then 3
              else 0)"
proof -
  from responder_pregunta_Inr_row [OF assms] obtain pregunta where
    p: "find (\<lambda>q. prg_id q = pac_pregunta_id participacion) (preguntas db) = Some pregunta"
    and c: "par_es_correcta r =
        (if pac_respuesta_dada participacion = prg_respuesta_correcta pregunta then 1 else 0)"
    and s: "par_puntaje_obtenido r =
        (if pac_respuesta_dada participacion = prg_respuesta_correcta pregunta
         then puntajes_get (prg_dificultad pregunta) 0 else 0)"
    by blast
  have "par_puntaje_obtenido r =
             (if pac_respuesta_dada participacion \<noteq> prg_respuesta_correcta pregunta then 0
              else if prg_dificultad pregunta = facil then 1
              else if prg_dificultad pregunta = medio then 2
              else if prg_dificultad pregunta = dificil then 3
              else 0)"
    unfolding s puntajes_get_cases by simp
  with p c show ?thesis by blast
qed

theorem responder_pregunta_score_witness:
  "\<exists>r db' pregunta.
      responder_pregunta 11 1 (respuesta 2 1 ''B'') demo_db0 = (Inr r, db')
    \<and> find (\<lambda>q. prg_id q = 1) (preguntas demo_db0) = Some pregunta
    \<and> prg_respuesta_correcta pregunta = ''B'' \<and> prg_dificultad pregunta = medio
    \<and> par_es_correcta r = 1 \<and> par_puntaje_obtenido r = 2"
proof -
  obtain r db' where h: "responder_pregunta 11 1 (respuesta 2 1 ''B'') demo_db0 = (Inr r, db')"
    by (simp add: demo_db0_eq responder_pregunta_def respuesta_def Let_def fits_int64_def)
  have q: "find (\<lambda>q. prg_id q = 1) (preguntas demo_db0)
         = Some \<lparr>prg_id = 1, prg_texto_pregunta = ''Q1'',
              prg_opciones = [(''A'', ''x''), (''B'', ''y'')],
              prg_respuesta_correcta = ''B'', prg_dificultad = medio\<rparr>"
    by (simp add: demo_db0_eq)
  from responder_pregunta_score [OF h] q
  have "par_es_correcta r = 1 \<and> par_puntaje_obtenido r = 2"
    by (simp add: respuesta_def facil_def medio_def)
  with h q show ?thesis by simp
qed


text \<open>
  C2, as stated, fails: the trivia id \<open>2 ^ 63\<close> names no trivia, yet the submission does
  not end in 404. The first query cannot bind the id and raises \<open>OverflowError\<close>.
\<close>

theorem responder_pregunta_check_order_counterexample:
  "2 ^ 63 \<notin> set (map trv_id (trivias demo_db))
   \<and> responder_pregunta 20 (2 ^ 63) (respuesta 1 1 ''A'') demo_db
       = (Inl OverflowError, demo_db)
   \<and> fst (responder_pregunta 20 (2 ^ 63) (respuesta 1 1 ''A'') demo_db)
       \<noteq> Inl (HTTPException HTTP_404_NOT_FOUND (TriviaNoEncontrada (2 ^ 63)))"
  by (simp add: responder_pregunta_def fits_int64_def demo_db_eq demo_db0_eq)

text \<open>
  C2, amended. For ids that are signed 64-bit integers, the checks of
  \<open>responder_pregunta\<close> run in a fixed order and the first one that fails decides the
  error: no such trivia gives 404; otherwise a user that is not assigned gives 403;
  otherwise a question outside the trivia gives 400 ("La pregunta no pertenece a esta
  trivia"); otherwise an existing answer for (user, trivia, question) gives 400 ("Ya has
  respondido esta pregunta"). The database is left as it was, the four errors are
  pairwise different, and none of them is returned when all four checks pass. Each
  check needs only the ids bound up to it to be in range.
\<close>

theorem responder_pregunta_check_order:
  "(fits_int64 t \<and> t \<notin> set (map trv_id (trivias db)) \<longrightarrow>
      responder_pregunta now t b db
        = (Inl (HTTPException HTTP_404_NOT_FOUND (TriviaNoEncontrada t)), db))
   \<and> (fits_int64 t \<and> t \<in> set (map trv_id (trivias db))
        \<and> fits_int64 (pac_usuario_id b)
        \<and> (t, pac_usuario_id b) \<notin> set (tu_pairs db) \<longrightarrow>
      responder_pregunta now t b db
        = (Inl (HTTPException HTTP_403_FORBIDDEN UsuarioNoAsignado), db))
   \<and> (fits_int64 t \<and> t \<in> set (map trv_id (trivias db))
        \<and> fits_int64 (pac_usuario_id b)
        \<and> (t, pac_usuario_id b) \<in> set (tu_pairs db)
        \<and> fits_int64 (pac_pregunta_id b)
        \<and> (t, pac_pregunta_id b) \<notin> set (tp_pairs db) \<longrightarrow>
      responder_pregunta now t b db
        = (Inl (HTTPException HTTP_400_BAD_REQUEST PreguntaNoPertenece), db))
   \<and> (fits_int64 t \<and> t \<in> set (map trv_id (trivias db))
        \<and> fits_int64 (pac_usuario_id b)
        \<and> (t, pac_usuario_id b) \<in> set (tu_pairs db)
        \<and> fits_int64 (pac_pregunta_id b)
        \<and> (t, pac_pregunta_id b) \<in> set (tp_pairs db)
        \<and> (pac_usuario_id b, t, pac_pregunta_id b) \<in> set (par_triples db) \<longrightarrow>
      responder_pregunta now t b db
        = (Inl (HTTPException HTTP_400_BAD_REQUEST YaRespondida), db))
   \<and> (fits_int64 t \<and> t \<in> set (map trv_id (trivias db))
        \<and> fits_int64 (pac_usuario_id b)
        \<and> (t, pac_usuario_id b) \<in> set (tu_pairs db)
        \<and> fits_int64 (pac_pregunta_id b)
        \<and> (t, pac_pregunta_id b) \<in> set (tp_pairs db)
        \<and> (pac_usuario_id b, t, pac_pregunta_id b) \<notin> set (par_triples db) \<longrightarrow>
      fst (responder_pregunta now t b db)
        \<notin> {Inl (HTTPException HTTP_404_NOT_FOUND (TriviaNoEncontrada t)),
            Inl (HTTPException HTTP_403_FORBIDDEN UsuarioNoAsignado),
            Inl (HTTPException HTTP_400_BAD_REQUEST PreguntaNoPertenece),
            Inl (HTTPException HTTP_400_BAD_REQUEST YaRespondida)})
   \<and> distinct [HTTPException HTTP_404_NOT_FOUND (TriviaNoEncontrada t),
                HTTPException HTTP_403_FORBIDDEN UsuarioNoAsignado,
                HTTPException HTTP_400_BAD_REQUEST PreguntaNoPertenece,
                HTTPException HTTP_400_BAD_REQUEST YaRespondida]"
proof -
  have c1: "fits_int64 t \<and> t \<notin> set (map trv_id (trivias db)) \<longrightarrow>
      responder_pregunta now t b db
        = (Inl (HTTPException HTTP_404_NOT_FOUND (TriviaNoEncontrada t)), db)"
    by (simp add: responder_pregunta_flat)
  have c2: "fits_int64 t \<and> t \<in> set (map trv_id (trivias db))
        \<and> fits_int64 (pac_usuario_id b)
        \<and> (t, pac_usuario_id b) \<notin> set (tu_pairs db) \<longrightarrow>
      responder_pregunta now t b db
        = (Inl (HTTPException HTTP_403_FORBIDDEN UsuarioNoAsignado), db)"
    by (simp add: responder_pregunta_flat)
  have c3: "fits_int64 t \<and> t \<in> set (map trv_id (trivias db))
        \<and> fits_int64 (pac_usuario_id b)
        \<and> (t, pac_usuario_id b) \<in> set (tu_pairs db)
        \<and> fits_int64 (pac_pregunta_id b)
        \<and> (t, pac_pregunta_id b) \<notin> set (tp_pairs db) \<longrightarrow>
      responder_pregunta now t b db
        = (Inl (HTTPException HTTP_400_BAD_REQUEST PreguntaNoPertenece), db)"
    by (simp add: responder_pregunta_flat)
  have c4: "fits_int64 t \<and> t \<in> set (map trv_id (trivias db))
        \<and> fits_int64 (pac_usuario_id b)
        \<and> (t, pac_usuario_id b) \<in> set (tu_pairs db)
        \<and> fits_int64 (pac_pregunta_id b)
        \<and> (t, pac_pregunta_id b) \<in> set (tp_pairs db)
        \<and> (pac_usuario_id b, t, pac_pregunta_id b) \<in> set (par_triples db) \<longrightarrow>
      responder_pregunta now t b db
        = (Inl (HTTPException HTTP_400_BAD_REQUEST YaRespondida), db)"
    by (simp add: responder_pregunta_flat)
  have c5: "fits_int64 t \<and> t \<in> set (map trv_id (trivias db))
        \<and> fits_int64 (pac_usuario_id b)
        \<and> (t, pac_usuario_id b) \<in> set (tu_pairs db)
        \<and> fits_int64 (pac_pregunta_id b)
        \<and> (t, pac_pregunta_id b) \<in> set (tp_pairs db)
        \<and> (pac_usuario_id b, t, pac_pregunta_id b) \<notin> set (par_triples db) \<longrightarrow>
      fst (responder_pregunta now t b db)
        \<notin> {Inl (HTTPException HTTP_404_NOT_FOUND (TriviaNoEncontrada t)),
            Inl (HTTPException HTTP_403_FORBIDDEN UsuarioNoAsignado),
            Inl (HTTPException HTTP_400_BAD_REQUEST PreguntaNoPertenece),
            Inl (HTTPException HTTP_400_BAD_REQUEST YaRespondida)}"
    by (simp add: responder_pregunta_flat split: option.split)
  have c6: "distinct [HTTPException HTTP_404_NOT_FOUND (TriviaNoEncontrada t),
                HTTPException HTTP_403_FORBIDDEN UsuarioNoAsignado,
                HTTPException HTTP_400_BAD_REQUEST PreguntaNoPertenece,
                HTTPException HTTP_400_BAD_REQUEST YaRespondida]"
    by simp
  from c1 c2 c3 c4 c5 c6 show ?thesis by blast
qed

lemma demo_db_keys:
  "map trv_id (trivias demo_db) = [1]"
  "tu_pairs demo_db = [(1, 1), (1, 2), (1, 3)]"
  "tp_pairs demo_db = [(1, 1), (1, 2)]"
  "par_triples demo_db = [(1, 1, 1), (2, 1, 1), (3, 1, 1)]"
  by (simp_all add: demo_db_eq demo_db0_eq tu_pairs_def tp_pairs_def par_triples_def)

theorem responder_pregunta_check_order_witness:
  "responder_pregunta 20 9 (respuesta 99 99 ''A'') demo_db
     = (Inl (HTTPException HTTP_404_NOT_FOUND (TriviaNoEncontrada 9)), demo_db)
   \<and> responder_pregunta 20 1 (respuesta 99 99 ''A'') demo_db
     = (Inl (HTTPException HTTP_403_FORBIDDEN UsuarioNoAsignado), demo_db)
   \<and> responder_pregunta 20 1 (respuesta 1 99 ''A'') demo_db
     = (Inl (HTTPException HTTP_400_BAD_REQUEST PreguntaNoPertenece), demo_db)
   \<and> responder_pregunta 20 1 (respuesta 1 1 ''A'') demo_db
     = (Inl (HTTPException HTTP_400_BAD_REQUEST YaRespondida), demo_db)
   \<and> fst (responder_pregunta 20 1 (respuesta 1 2 ''A'') demo_db)
     \<noteq> Inl (HTTPException HTTP_400_BAD_REQUEST YaRespondida)"
  using responder_pregunta_check_order [of 9 demo_db 20 "respuesta 99 99 ''A''"]
        responder_pregunta_check_order [of 1 demo_db 20 "respuesta 99 99 ''A''"]
        responder_pregunta_check_order [of 1 demo_db 20 "respuesta 1 99 ''A''"]
        responder_pregunta_check_order [of 1 demo_db 20 "respuesta 1 1 ''A''"]
        responder_pregunta_check_order [of 1 demo_db 20 "respuesta 1 2 ''A''"]
  by (simp add: demo_db_keys respuesta_def fits_int64_def)

text \<open>
  C10. The \<open>trivia_id\<close> of the request body is never read: two bodies that agree on
  \<open>usuario_id\<close>, \<open>pregunta_id\<close> and \<open>respuesta_dada\<close> give the same result and the
  same database, and an accepted submission stores the \<open>trivia_id\<close> of the path.
\<close>

theorem responder_pregunta_ignores_body_trivia_id:
  assumes "pac_usuario_id b1 = pac_usuario_id b2"
    and "pac_pregunta_id b1 = pac_pregunta_id b2"
    and "pac_respuesta_dada b1 = pac_respuesta_dada b2"
  shows "responder_pregunta now t b1 db = responder_pregunta now t b2 db
       \<and> (\<forall>r db'. responder_pregunta now t b1 db = (Inr r, db') \<longrightarrow>
             par_trivia_id r = t \<and> db' = db\<lparr>participaciones := participaciones db @ [r]\<rparr>)"
proof -
  have "responder_pregunta now t b1 db = responder_pregunta now t b2 db"
    unfolding responder_pregunta_def assms by (rule refl)
  moreover have "\<forall>r db'. responder_pregunta now t b1 db = (Inr r, db') \<longrightarrow>
             par_trivia_id r = t \<and> db' = db\<lparr>participaciones := participaciones db @ [r]\<rparr>"
    using responder_pregunta_Inr(1,3) by blast
  ultimately show ?thesis by simp
qed

theorem responder_pregunta_ignores_body_trivia_id_witness:
  "responder_pregunta 11 1 ((respuesta 2 1 ''B'')\<lparr>pac_trivia_id := 777\<rparr>) demo_db0
     = responder_pregunta 11 1 (respuesta 2 1 ''B'') demo_db0
   \<and> (\<exists>r db'. responder_pregunta 11 1 ((respuesta 2 1 ''B'')\<lparr>pac_trivia_id := 777\<rparr>) demo_db0
                 = (Inr r, db')
        \<and> par_trivia_id r = 1
        \<and> db' = demo_db0\<lparr>participaciones := participaciones demo_db0 @ [r]\<rparr>)"
proof -
  let ?b1 = "(respuesta 2 1 ''B'')\<lparr>pac_trivia_id := 777\<rparr>"
  let ?b2 = "respuesta 2 1 ''B''"
  obtain r db' where h: "responder_pregunta 11 1 ?b1 demo_db0 = (Inr r, db')"
    by (simp add: demo_db0_eq responder_pregunta_def respuesta_def Let_def fits_int64_def)
  have "pac_usuario_id ?b1 = pac_usuario_id ?b2" "pac_pregunta_id ?b1 = pac_pregunta_id ?b2"
    "pac_respuesta_dada ?b1 = pac_respuesta_dada ?b2"
    by simp_all
  from responder_pregunta_ignores_body_trivia_id [OF this, of 11 1 demo_db0] h
  show ?thesis by auto
qed

subsection \<open>Creating a user\<close>





lemma sum_list_ones: "sum_list (map (\<lambda>p. 1::int) xs) = int (length xs)"
  by (induction xs) simp_all

subsection \<open>The score of one user\<close>

text \<open>
  C8, as stated, fails: \<open>obtener_puntaje_usuario\<close> does fail, with \<open>OverflowError\<close>,
  when the trivia id is \<open>2 ^ 63\<close>, which its query cannot bind.
\<close>

theorem obtener_puntaje_usuario_total_counterexample:
  "obtener_puntaje_usuario (2 ^ 63) 1 demo_db = Inl OverflowError"
  by (simp add: obtener_puntaje_usuario_def fits_int64_def)

text \<open>
  C8, amended. For every trivia id and user id that are signed 64-bit integers, and
  every database, whether or not the trivia, the user or the assignment exists,
  \<open>obtener_puntaje_usuario\<close> does not fail: it returns the sum of \<open>puntaje_obtenido\<close>,
  the number of rows and the number of rows with \<open>es_correcta = 1\<close> over the answers of
  that user in that trivia; all three are 0 when there is no such answer.
\<close>

theorem obtener_puntaje_usuario_total:
  assumes "fits_int64 t" and "fits_int64 u"
  shows "\<exists>r. obtener_puntaje_usuario t u db = Inr r
      \<and> pt_usuario_id r = u \<and> pt_trivia_id r = t
      \<and> pt_puntaje_total r
          = sum_list (map par_puntaje_obtenido
              (filter (\<lambda>p. par_trivia_id p = t \<and> par_usuario_id p = u) (participaciones db)))
      \<and> pt_total_respuestas r
          = int (length
              (filter (\<lambda>p. par_trivia_id p = t \<and> par_usuario_id p = u) (participaciones db)))
      \<and> pt_respuestas_correctas r
          = int (length
              (filter (\<lambda>p. par_trivia_id p = t \<and> par_usuario_id p = u \<and> par_es_correcta p = 1)
                 (participaciones db)))
      \<and> ((\<forall>p \<in> set (participaciones db). \<not> (par_trivia_id p = t \<and> par_usuario_id p = u)) \<longrightarrow>
           pt_puntaje_total r = 0 \<and> pt_total_respuestas r = 0 \<and> pt_respuestas_correctas r = 0)"
proof -
  let ?ps = "filter (\<lambda>p. par_trivia_id p = t \<and> par_usuario_id p = u) (participaciones db)"
  have f: "filter (\<lambda>p. par_es_correcta p = 1) ?ps
         = filter (\<lambda>p. par_trivia_id p = t \<and> par_usuario_id p = u \<and> par_es_correcta p = 1)
             (participaciones db)"
    by (simp add: conj_commute conj_left_commute)
  have e: "(\<forall>p \<in> set (participaciones db). \<not> (par_trivia_id p = t \<and> par_usuario_id p = u))
           \<longrightarrow> ?ps = []"
    by (simp add: filter_empty_conv)
  have e2: "(\<forall>p \<in> set (participaciones db). \<not> (par_trivia_id p = t \<and> par_usuario_id p = u))
           \<longrightarrow> filter (\<lambda>p. par_trivia_id p = t \<and> par_usuario_id p = u \<and> par_es_correcta p = 1)
             (participaciones db) = []"
    by (auto simp: filter_empty_conv)
  have r: "obtener_puntaje_usuario t u db =
      Inr \<lparr>pt_usuario_id = u, pt_trivia_id = t,
           pt_puntaje_total = sum_list (map par_puntaje_obtenido ?ps),
           pt_total_respuestas = int (length ?ps),
           pt_respuestas_correctas =
             int (length (filter (\<lambda>p. par_trivia_id p = t \<and> par_usuario_id p = u
                                      \<and> par_es_correcta p = 1) (participaciones db)))\<rparr>"
    using assms unfolding obtener_puntaje_usuario_def Let_def sum_list_ones f by simp
  show ?thesis
    unfolding r using e e2 by auto
qed

theorem obtener_puntaje_usuario_total_witness:
  "obtener_puntaje_usuario 9 99 demo_db
     = Inr \<lparr>pt_usuario_id = 99, pt_trivia_id = 9, pt_puntaje_total = 0,
            pt_total_respuestas = 0, pt_respuestas_correctas = 0\<rparr>
   \<and> obtener_puntaje_usuario 1 2 demo_db
     = Inr \<lparr>pt_usuario_id = 2, pt_trivia_id = 1, pt_puntaje_total = 2,
            pt_total_respuestas = 1, pt_respuestas_correctas = 1\<rparr>"
proof -
  have fits: "fits_int64 9" "fits_int64 99" by (simp_all add: fits_int64_def)
  obtain r where r: "obtener_puntaje_usuario 9 99 demo_db = Inr r"
    and "pt_usuario_id r = 99" "pt_trivia_id r = 9"
    and "(\<forall>p \<in> set (participaciones demo_db). \<not> (par_trivia_id p = 9 \<and> par_usuario_id p = 99))
         \<longrightarrow> pt_puntaje_total r = 0 \<and> pt_total_respuestas r = 0
             \<and> pt_respuestas_correctas r = 0"
    using obtener_puntaje_usuario_total [OF fits, of demo_db] by blast
  then have "r = \<lparr>pt_usuario_id = 99, pt_trivia_id = 9, pt_puntaje_total = 0,
            pt_total_respuestas = 0, pt_respuestas_correctas = 0\<rparr>"
    by (simp add: demo_db_eq)
  with r have a: "obtener_puntaje_usuario 9 99 demo_db
     = Inr \<lparr>pt_usuario_id = 99, pt_trivia_id = 9, pt_puntaje_total = 0,
            pt_total_respuestas = 0, pt_respuestas_correctas = 0\<rparr>"
    by simp
  have b: "obtener_puntaje_usuario 1 2 demo_db
     = Inr \<lparr>pt_usuario_id = 2, pt_trivia_id = 1, pt_puntaje_total = 2,
            pt_total_respuestas = 1, pt_respuestas_correctas = 1\<rparr>"
    by (simp add: obtener_puntaje_usuario_def demo_db_eq fits_int64_def)
  from a b show ?thesis by simp
qed

subsection \<open>Creating a trivia\<close>

lemma crear_trivia_Inl:
  assumes "pk_ok db" and "crear_trivia lim now req db = (Inl e, db')"
  shows "db' = db"
  using assms(2) unfolding crear_trivia_flat [OF assms(1)]
  by (simp split: if_splits)

text \<open>
  C4, as stated, fails: a request that lists the question id \<open>2 ^ 63\<close>, which no
  question has, does not end in 400. The \<open>IN\<close> query cannot bind the id and raises
  \<open>OverflowError\<close>. Nor does a request that lists an unknown id 250001 times, more
  parameters than the store accepts in one statement: its query is refused. The database
  is still left as it was.
\<close>

theorem crear_trivia_unknown_id_counterexample:
  "\<not> set (tc_pregunta_ids (trivia_1\<lparr>tc_pregunta_ids := [2 ^ 63]\<rparr>))
        \<subseteq> set (map prg_id (preguntas demo_db0))
   \<and> crear_trivia sqlite_max_variable_number 30
         (trivia_1\<lparr>tc_pregunta_ids := [2 ^ 63]\<rparr>) demo_db0
       = (Inl OverflowError, demo_db0)
   \<and> \<not> set (tc_pregunta_ids (trivia_1\<lparr>tc_pregunta_ids := replicate 250001 999\<rparr>))
        \<subseteq> set (map prg_id (preguntas demo_db0))
   \<and> crear_trivia sqlite_max_variable_number 30
         (trivia_1\<lparr>tc_pregunta_ids := replicate 250001 999\<rparr>) demo_db0
       = (Inl OperationalError, demo_db0)"
  by (simp add: crear_trivia_def fits_int64_def demo_db0_eq sqlite_max_variable_number_def)

text \<open>
  C4, amended. In every reachable state, a \<open>crear_trivia\<close> request whose listed ids are
  signed 64-bit integers, whose lists are no longer than the store allows parameters in
  one statement, and that lists a question id or a user id with no row fails with
  status 400. Whenever \<open>crear_trivia\<close> fails, with whatever error, the database
  afterwards is the database before: no trivia row and no link row of the request is
  stored.
\<close>

theorem crear_trivia_unknown_id:
  assumes "reachable db"
  shows "(length (tc_pregunta_ids req) \<le> lim \<and> list_all fits_int64 (tc_pregunta_ids req)
            \<and> \<not> set (tc_pregunta_ids req) \<subseteq> set (map prg_id (preguntas db)) \<longrightarrow>
            crear_trivia lim now req db
              = (Inl (HTTPException HTTP_400_BAD_REQUEST AlgunaPreguntaNoExiste), db))
       \<and> (length (tc_pregunta_ids req) \<le> lim \<and> list_all fits_int64 (tc_pregunta_ids req)
            \<and> length (tc_usuario_ids req) \<le> lim \<and> list_all fits_int64 (tc_usuario_ids req)
            \<and> \<not> set (tc_usuario_ids req) \<subseteq> set (map usr_id (usuarios db)) \<longrightarrow>
            (\<exists>d. crear_trivia lim now req db = (Inl (HTTPException HTTP_400_BAD_REQUEST d), db)))
       \<and> (\<forall>e db'. crear_trivia lim now req db = (Inl e, db') \<longrightarrow> db' = db)"
proof -
  have pk: "pk_ok db" using reachable_wf [OF assms] by (simp add: wf_db_def)
  have c1: "length (tc_pregunta_ids req) \<le> lim \<and> list_all fits_int64 (tc_pregunta_ids req)
            \<and> \<not> set (tc_pregunta_ids req) \<subseteq> set (map prg_id (preguntas db)) \<longrightarrow>
            crear_trivia lim now req db
              = (Inl (HTTPException HTTP_400_BAD_REQUEST AlgunaPreguntaNoExiste), db)"
    unfolding crear_trivia_flat [OF pk] by simp
  have c2: "length (tc_pregunta_ids req) \<le> lim \<and> list_all fits_int64 (tc_pregunta_ids req)
            \<and> length (tc_usuario_ids req) \<le> lim \<and> list_all fits_int64 (tc_usuario_ids req)
            \<and> \<not> set (tc_usuario_ids req) \<subseteq> set (map usr_id (usuarios db)) \<longrightarrow>
            (\<exists>d. crear_trivia lim now req db = (Inl (HTTPException HTTP_400_BAD_REQUEST d), db))"
    unfolding crear_trivia_flat [OF pk] by simp
  have c3: "\<forall>e db'. crear_trivia lim now req db = (Inl e, db') \<longrightarrow> db' = db"
    using crear_trivia_Inl [OF pk] by blast
  from c1 c2 c3 show ?thesis by blast
qed

theorem crear_trivia_unknown_id_witness:
  "crear_trivia sqlite_max_variable_number 30 (trivia_1\<lparr>tc_nombre := ''Otra'', tc_pregunta_ids := [1, 2, 999]\<rparr>) demo_db0
     = (Inl (HTTPException HTTP_400_BAD_REQUEST AlgunaPreguntaNoExiste), demo_db0)
   \<and> (\<exists>d. crear_trivia sqlite_max_variable_number 30 (trivia_1\<lparr>tc_usuario_ids := [1, 77]\<rparr>) demo_db0
             = (Inl (HTTPException HTTP_400_BAD_REQUEST d), demo_db0))"
proof -
  have ids: "map prg_id (preguntas demo_db0) = [1, 2]" "map usr_id (usuarios demo_db0) = [1, 2, 3]"
    by (simp_all add: demo_db0_eq)
  have a: "length (tc_pregunta_ids
                     (trivia_1\<lparr>tc_nombre := ''Otra'', tc_pregunta_ids := [1, 2, 999]\<rparr>))
             \<le> sqlite_max_variable_number
      \<and> list_all fits_int64
             (tc_pregunta_ids (trivia_1\<lparr>tc_nombre := ''Otra'', tc_pregunta_ids := [1, 2, 999]\<rparr>))
      \<and> \<not> set (tc_pregunta_ids (trivia_1\<lparr>tc_nombre := ''Otra'', tc_pregunta_ids := [1, 2, 999]\<rparr>))
            \<subseteq> set (map prg_id (preguntas demo_db0))"
    by (simp only: ids) (simp add: fits_int64_def sqlite_max_variable_number_def)
  have b: "length (tc_pregunta_ids (trivia_1\<lparr>tc_usuario_ids := [1, 77]\<rparr>))
             \<le> sqlite_max_variable_number
      \<and> list_all fits_int64 (tc_pregunta_ids (trivia_1\<lparr>tc_usuario_ids := [1, 77]\<rparr>))
      \<and> length (tc_usuario_ids (trivia_1\<lparr>tc_usuario_ids := [1, 77]\<rparr>))
             \<le> sqlite_max_variable_number
      \<and> list_all fits_int64 (tc_usuario_ids (trivia_1\<lparr>tc_usuario_ids := [1, 77]\<rparr>))
      \<and> \<not> set (tc_usuario_ids (trivia_1\<lparr>tc_usuario_ids := [1, 77]\<rparr>))
            \<subseteq> set (map usr_id (usuarios demo_db0))"
    by (simp only: ids) (simp add: fits_int64_def trivia_1_def sqlite_max_variable_number_def)
  from crear_trivia_unknown_id [OF reachable_demo_db0,
         where req = "trivia_1\<lparr>tc_nombre := ''Otra'', tc_pregunta_ids := [1, 2, 999]\<rparr>"
           and lim = sqlite_max_variable_number and now = 30] a
  have c1: "crear_trivia sqlite_max_variable_number 30 (trivia_1\<lparr>tc_nombre := ''Otra'', tc_pregunta_ids := [1, 2, 999]\<rparr>)
       demo_db0
     = (Inl (HTTPException HTTP_400_BAD_REQUEST AlgunaPreguntaNoExiste), demo_db0)"
    by blast
  from crear_trivia_unknown_id [OF reachable_demo_db0,
         where req = "trivia_1\<lparr>tc_usuario_ids := [1, 77]\<rparr>"
           and lim = sqlite_max_variable_number and now = 30] b
  have c2: "\<exists>d. crear_trivia sqlite_max_variable_number 30 (trivia_1\<lparr>tc_usuario_ids := [1, 77]\<rparr>) demo_db0
             = (Inl (HTTPException HTTP_400_BAD_REQUEST d), demo_db0)"
    by blast
  from c1 c2 show ?thesis by (rule conjI)
qed

text \<open>
  C9, as stated, fails: a request that lists the question id \<open>2 ^ 63\<close> twice does not
  end in 400. The \<open>IN\<close> query cannot bind the id and raises \<open>OverflowError\<close>. Nor
  does a request that lists question 1 250001 times, more parameters than the store
  accepts in one statement: its query is refused.
\<close>

theorem crear_trivia_repeated_id_counterexample:
  "\<not> distinct (tc_pregunta_ids (trivia_1\<lparr>tc_pregunta_ids := [2 ^ 63, 2 ^ 63]\<rparr>))
   \<and> crear_trivia sqlite_max_variable_number 30
         (trivia_1\<lparr>tc_pregunta_ids := [2 ^ 63, 2 ^ 63]\<rparr>) demo_db0
       = (Inl OverflowError, demo_db0)
   \<and> \<not> distinct (tc_pregunta_ids (trivia_1\<lparr>tc_pregunta_ids := replicate 250001 1\<rparr>))
   \<and> crear_trivia sqlite_max_variable_number 30
         (trivia_1\<lparr>tc_pregunta_ids := replicate 250001 1\<rparr>) demo_db0
       = (Inl OperationalError, demo_db0)"
proof -
  have c1: "\<not> distinct (tc_pregunta_ids (trivia_1\<lparr>tc_pregunta_ids := [2 ^ 63, 2 ^ 63]\<rparr>))"
    by simp
  have c2: "crear_trivia sqlite_max_variable_number 30
         (trivia_1\<lparr>tc_pregunta_ids := [2 ^ 63, 2 ^ 63]\<rparr>) demo_db0
       = (Inl OverflowError, demo_db0)"
    by (simp add: crear_trivia_def fits_int64_def sqlite_max_variable_number_def)
  have n: "(250001::nat) = Suc (Suc 249999)"
    by simp
  have r: "\<not> distinct (replicate (Suc (Suc k)) x)" for k and x :: int
    by simp
  have "\<not> distinct (replicate 250001 (1::int))"
    unfolding n by (rule r)
  then have c3: "\<not> distinct (tc_pregunta_ids
              (trivia_1\<lparr>tc_pregunta_ids := replicate 250001 1\<rparr>))"
    by (simp del: replicate.simps)
  have c4: "crear_trivia sqlite_max_variable_number 30
         (trivia_1\<lparr>tc_pregunta_ids := replicate 250001 1\<rparr>) demo_db0
       = (Inl OperationalError, demo_db0)"
    by (simp add: crear_trivia_def sqlite_max_variable_number_def)
  from c1 c2 c3 c4 show ?thesis by blast
qed

text \<open>
  C9, amended. In every reachable state, a \<open>crear_trivia\<close> request whose listed ids are
  signed 64-bit integers, whose lists are no longer than the store allows parameters in
  one statement, and that lists a question id or a user id twice fails with
  status 400 and changes nothing, also when every listed id has a row: the \<open>IN\<close> query
  returns each matching row once, so its length is smaller than the length of the list.
\<close>

theorem crear_trivia_repeated_id:
  assumes "reachable db"
  shows "(length (tc_pregunta_ids req) \<le> lim \<and> list_all fits_int64 (tc_pregunta_ids req)
            \<and> \<not> distinct (tc_pregunta_ids req) \<longrightarrow>
            crear_trivia lim now req db
              = (Inl (HTTPException HTTP_400_BAD_REQUEST AlgunaPreguntaNoExiste), db))
       \<and> (length (tc_pregunta_ids req) \<le> lim \<and> list_all fits_int64 (tc_pregunta_ids req)
            \<and> length (tc_usuario_ids req) \<le> lim \<and> list_all fits_int64 (tc_usuario_ids req)
            \<and> \<not> distinct (tc_usuario_ids req) \<longrightarrow>
            (\<exists>d. crear_trivia lim now req db = (Inl (HTTPException HTTP_400_BAD_REQUEST d), db)))
       \<and> (length (tc_pregunta_ids req) \<le> lim \<and> list_all fits_int64 (tc_pregunta_ids req)
            \<and> length (tc_usuario_ids req) \<le> lim \<and> list_all fits_int64 (tc_usuario_ids req)
            \<and> distinct (tc_pregunta_ids req)
            \<and> set (tc_pregunta_ids req) \<subseteq> set (map prg_id (preguntas db))
            \<and> \<not> distinct (tc_usuario_ids req) \<longrightarrow>
            crear_trivia lim now req db
              = (Inl (HTTPException HTTP_400_BAD_REQUEST AlgunUsuarioNoExiste), db))"
proof -
  have pk: "pk_ok db" using reachable_wf [OF assms] by (simp add: wf_db_def)
  have c1: "length (tc_pregunta_ids req) \<le> lim \<and> list_all fits_int64 (tc_pregunta_ids req)
            \<and> \<not> distinct (tc_pregunta_ids req) \<longrightarrow>
            crear_trivia lim now req db
              = (Inl (HTTPException HTTP_400_BAD_REQUEST AlgunaPreguntaNoExiste), db)"
    unfolding crear_trivia_flat [OF pk] by simp
  have c2: "length (tc_pregunta_ids req) \<le> lim \<and> list_all fits_int64 (tc_pregunta_ids req)
            \<and> length (tc_usuario_ids req) \<le> lim \<and> list_all fits_int64 (tc_usuario_ids req)
            \<and> \<not> distinct (tc_usuario_ids req) \<longrightarrow>
            (\<exists>d. crear_trivia lim now req db = (Inl (HTTPException HTTP_400_BAD_REQUEST d), db))"
    unfolding crear_trivia_flat [OF pk] by simp
  have c3: "length (tc_pregunta_ids req) \<le> lim \<and> list_all fits_int64 (tc_pregunta_ids req)
            \<and> length (tc_usuario_ids req) \<le> lim \<and> list_all fits_int64 (tc_usuario_ids req)
            \<and> distinct (tc_pregunta_ids req)
            \<and> set (tc_pregunta_ids req) \<subseteq> set (map prg_id (preguntas db))
            \<and> \<not> distinct (tc_usuario_ids req) \<longrightarrow>
            crear_trivia lim now req db
              = (Inl (HTTPException HTTP_400_BAD_REQUEST AlgunUsuarioNoExiste), db)"
    unfolding crear_trivia_flat [OF pk] by simp
  from c1 c2 c3 show ?thesis by blast
qed

theorem crear_trivia_repeated_id_witness:
  "set [1, 1] \<subseteq> set (map prg_id (preguntas demo_db0))
   \<and> set [2, 3, 2] \<subseteq> set (map usr_id (usuarios demo_db0))
   \<and> crear_trivia sqlite_max_variable_number 30 (trivia_1\<lparr>tc_pregunta_ids := [1, 1]\<rparr>) demo_db0
     = (Inl (HTTPException HTTP_400_BAD_REQUEST AlgunaPreguntaNoExiste), demo_db0)
   \<and> crear_trivia sqlite_max_variable_number 30 (trivia_1\<lparr>tc_usuario_ids := [2, 3, 2]\<rparr>) demo_db0
     = (Inl (HTTPException HTTP_400_BAD_REQUEST AlgunUsuarioNoExiste), demo_db0)"
proof -
  have ids: "map prg_id (preguntas demo_db0) = [1, 2]" "map usr_id (usuarios demo_db0) = [1, 2, 3]"
    by (simp_all add: demo_db0_eq)
  have s: "set [1, 1] \<subseteq> set (map prg_id (preguntas demo_db0))"
    "set [2, 3, 2] \<subseteq> set (map usr_id (usuarios demo_db0))"
    by (simp_all only: ids) simp_all
  have a: "length (tc_pregunta_ids (trivia_1\<lparr>tc_pregunta_ids := [1, 1]\<rparr>))
             \<le> sqlite_max_variable_number
      \<and> list_all fits_int64 (tc_pregunta_ids (trivia_1\<lparr>tc_pregunta_ids := [1, 1]\<rparr>))
      \<and> \<not> distinct (tc_pregunta_ids (trivia_1\<lparr>tc_pregunta_ids := [1, 1]\<rparr>))"
    by (simp add: fits_int64_def sqlite_max_variable_number_def)
  have b: "length (tc_pregunta_ids (trivia_1\<lparr>tc_usuario_ids := [2, 3, 2]\<rparr>))
             \<le> sqlite_max_variable_number
      \<and> list_all fits_int64 (tc_pregunta_ids (trivia_1\<lparr>tc_usuario_ids := [2, 3, 2]\<rparr>))
      \<and> length (tc_usuario_ids (trivia_1\<lparr>tc_usuario_ids := [2, 3, 2]\<rparr>))
             \<le> sqlite_max_variable_number
      \<and> list_all fits_int64 (tc_usuario_ids (trivia_1\<lparr>tc_usuario_ids := [2, 3, 2]\<rparr>))
      \<and> distinct (tc_pregunta_ids (trivia_1\<lparr>tc_usuario_ids := [2, 3, 2]\<rparr>))
      \<and> set (tc_pregunta_ids (trivia_1\<lparr>tc_usuario_ids := [2, 3, 2]\<rparr>))
          \<subseteq> set (map prg_id (preguntas demo_db0))
      \<and> \<not> distinct (tc_usuario_ids (trivia_1\<lparr>tc_usuario_ids := [2, 3, 2]\<rparr>))"
    by (simp only: ids) (simp add: trivia_1_def fits_int64_def sqlite_max_variable_number_def)
  from crear_trivia_repeated_id [OF reachable_demo_db0,
         where req = "trivia_1\<lparr>tc_pregunta_ids := [1, 1]\<rparr>"
           and lim = sqlite_max_variable_number and now = 30] a
  have c1: "crear_trivia sqlite_max_variable_number 30 (trivia_1\<lparr>tc_pregunta_ids := [1, 1]\<rparr>) demo_db0
     = (Inl (HTTPException HTTP_400_BAD_REQUEST AlgunaPreguntaNoExiste), demo_db0)"
    by blast
  from crear_trivia_repeated_id [OF reachable_demo_db0,
         where req = "trivia_1\<lparr>tc_usuario_ids := [2, 3, 2]\<rparr>"
           and lim = sqlite_max_variable_number and now = 30] b
  have c2: "crear_trivia sqlite_max_variable_number 30 (trivia_1\<lparr>tc_usuario_ids := [2, 3, 2]\<rparr>) demo_db0
     = (Inl (HTTPException HTTP_400_BAD_REQUEST AlgunUsuarioNoExiste), demo_db0)"
    by blast
  from s c1 c2 show ?thesis by blast
qed


subsection \<open>The player's view of a trivia\<close>

lemma preguntas_jugador_loop_acc:
  "preguntas_jugador_loop db tps acc = acc @ preguntas_jugador_loop db tps []"
proof (induction tps arbitrary: acc)
  case Nil
  show ?case by simp
next
  case (Cons tp tps)
  show ?case
  proof (cases "find (\<lambda>q. prg_id q = tp_pregunta_id tp) (preguntas db)")
    case None
    then show ?thesis using Cons.IH [of acc] by simp
  next
    case (Some q)
    let ?j = "\<lparr>pj_id = prg_id q, pj_texto_pregunta = prg_texto_pregunta q,
               pj_opciones = prg_opciones q\<rparr>"
    show ?thesis
      using Some Cons.IH [of "acc @ [?j]"] Cons.IH [of "[?j]"] by simp
  qed
qed

lemma preguntas_jugador_loop_Cons:
  "preguntas_jugador_loop db (tp # tps) [] =
     (case find (\<lambda>q. prg_id q = tp_pregunta_id tp) (preguntas db) of
        None \<Rightarrow> preguntas_jugador_loop db tps []
      | Some q \<Rightarrow> \<lparr>pj_id = prg_id q, pj_texto_pregunta = prg_texto_pregunta q,
                    pj_opciones = prg_opciones q\<rparr> # preguntas_jugador_loop db tps [])"
proof (cases "find (\<lambda>q. prg_id q = tp_pregunta_id tp) (preguntas db)")
  case None
  then show ?thesis by simp
next
  case (Some q)
  then show ?thesis
    using preguntas_jugador_loop_acc
      [of db tps "[\<lparr>pj_id = prg_id q, pj_texto_pregunta = prg_texto_pregunta q,
                    pj_opciones = prg_opciones q\<rparr>]"]
    by simp
qed

lemma preguntas_jugador_loop_sound:
  "j \<in> set (preguntas_jugador_loop db tps []) \<Longrightarrow>
   \<exists>tp \<in> set tps. \<exists>q \<in> set (preguntas db). prg_id q = tp_pregunta_id tp
      \<and> j = \<lparr>pj_id = prg_id q, pj_texto_pregunta = prg_texto_pregunta q,
              pj_opciones = prg_opciones q\<rparr>"
proof (induction tps)
  case Nil
  then show ?case by simp
next
  case (Cons tp tps)
  show ?case
  proof (cases "find (\<lambda>q. prg_id q = tp_pregunta_id tp) (preguntas db)")
    case None
    then show ?thesis using Cons
      by (simp add: preguntas_jugador_loop_Cons del: preguntas_jugador_loop.simps(2))
  next
    case (Some q)
    from find_SomeD [OF Some] have q: "q \<in> set (preguntas db)" "prg_id q = tp_pregunta_id tp"
      by simp_all
    from Cons.prems Some
    have "j = \<lparr>pj_id = prg_id q, pj_texto_pregunta = prg_texto_pregunta q,
              pj_opciones = prg_opciones q\<rparr> \<or> j \<in> set (preguntas_jugador_loop db tps [])"
      by (simp add: preguntas_jugador_loop_Cons del: preguntas_jugador_loop.simps(2))
    then show ?thesis
    proof
      assume "j = \<lparr>pj_id = prg_id q, pj_texto_pregunta = prg_texto_pregunta q,
              pj_opciones = prg_opciones q\<rparr>"
      with q show ?thesis by auto
    next
      assume "j \<in> set (preguntas_jugador_loop db tps [])"
      from Cons.IH [OF this] show ?thesis by auto
    qed
  qed
qed

lemma preguntas_jugador_loop_complete:
  "tp \<in> set tps \<Longrightarrow> tp_pregunta_id tp \<in> set (map prg_id (preguntas db)) \<Longrightarrow>
   \<exists>j \<in> set (preguntas_jugador_loop db tps []). pj_id j = tp_pregunta_id tp"
proof (induction tps)
  case Nil
  then show ?case by simp
next
  case (Cons x tps)
  show ?case
  proof (cases "tp = x")
    case True
    from Cons.prems(2) obtain q where
      q: "find (\<lambda>q. prg_id q = tp_pregunta_id tp) (preguntas db) = Some q"
      using find_pregunta_iff [of "tp_pregunta_id tp" db] by auto
    from find_SomeD [OF q] have "prg_id q = tp_pregunta_id tp" by simp
    then show ?thesis using q True
      by (simp add: preguntas_jugador_loop_Cons del: preguntas_jugador_loop.simps(2))
  next
    case False
    then have "tp \<in> set tps" using Cons.prems(1) by simp
    from Cons.IH [OF this Cons.prems(2)] show ?thesis
      by (auto simp: preguntas_jugador_loop_Cons simp del: preguntas_jugador_loop.simps(2)
            split: option.split)
  qed
qed

lemma find_pregunta_map:
  assumes "\<And>q. prg_id (h q) = prg_id q"
  shows "find (\<lambda>q. prg_id q = k) (map h qs) = map_option h (find (\<lambda>q. prg_id q = k) qs)"
  by (induction qs) (simp_all add: assms)

lemma preguntas_jugador_loop_redact:
  "preguntas_jugador_loop
     (db\<lparr>preguntas := map (\<lambda>q. q\<lparr>prg_respuesta_correcta := f q, prg_dificultad := g q\<rparr>)
                          (preguntas db)\<rparr>) tps acc
   = preguntas_jugador_loop db tps acc"
proof (induction tps arbitrary: acc)
  case Nil
  show ?case by simp
next
  case (Cons tp tps)
  let ?h = "\<lambda>q. q\<lparr>prg_respuesta_correcta := f q, prg_dificultad := g q\<rparr>"
  have fm: "find (\<lambda>q. prg_id q = tp_pregunta_id tp) (map ?h (preguntas db))
      = map_option ?h (find (\<lambda>q. prg_id q = tp_pregunta_id tp) (preguntas db))"
    by (rule find_pregunta_map) simp
  show ?case
    by (cases "find (\<lambda>q. prg_id q = tp_pregunta_id tp) (preguntas db)")
       (simp_all add: fm Cons.IH)
qed

text \<open>
  C5, as stated, fails: the pair (\<open>2 ^ 63\<close>, 1) is no assignment, yet the listing does
  not end in 404. The query cannot bind the trivia id and raises \<open>OverflowError\<close>.
\<close>

theorem ver_trivia_jugador_redacted_counterexample:
  "(2 ^ 63, 1) \<notin> set (tu_pairs demo_db)
   \<and> ver_trivia_jugador (2 ^ 63) 1 demo_db = Inl OverflowError"
  by (simp add: ver_trivia_jugador_def fits_int64_def demo_db_keys)

text \<open>
  C5, amended. For a trivia id and a user id that are signed 64-bit integers,
  \<open>ver_trivia_jugador\<close> fails with 404 when the user is not assigned to the trivia. When
  the user is assigned, every entry of the listing is the id, text and options of a
  question linked to the trivia, and every linked question is listed. For all ids, the
  result does not depend on \<open>respuesta_correcta\<close> or \<open>dificultad\<close>: overwriting both
  fields of every question in the database, in any way, gives the same output.
\<close>

theorem ver_trivia_jugador_redacted:
  "(fits_int64 t \<and> fits_int64 u \<and> (t, u) \<notin> set (tu_pairs db) \<longrightarrow>
      ver_trivia_jugador t u db = Inl (HTTPException HTTP_404_NOT_FOUND UsuarioNoAsignado))
   \<and> (fits_int64 t \<and> fits_int64 u \<and> (t, u) \<in> set (tu_pairs db) \<longrightarrow>
      (\<exists>js. ver_trivia_jugador t u db = Inr js
         \<and> (\<forall>j \<in> set js. \<exists>q \<in> set (preguntas db). (t, prg_id q) \<in> set (tp_pairs db)
               \<and> j = \<lparr>pj_id = prg_id q, pj_texto_pregunta = prg_texto_pregunta q,
                       pj_opciones = prg_opciones q\<rparr>)
         \<and> (\<forall>q \<in> set (preguntas db). (t, prg_id q) \<in> set (tp_pairs db) \<longrightarrow>
               (\<exists>j \<in> set js. pj_id j = prg_id q))))
   \<and> (\<forall>f g. ver_trivia_jugador t u
               (db\<lparr>preguntas :=
                     map (\<lambda>q. q\<lparr>prg_respuesta_correcta := f q, prg_dificultad := g q\<rparr>)
                       (preguntas db)\<rparr>)
             = ver_trivia_jugador t u db)"
proof (intro conjI impI allI)
  assume h: "fits_int64 t \<and> fits_int64 u \<and> (t, u) \<notin> set (tu_pairs db)"
  then have "find (\<lambda>a. tu_trivia_id a = t \<and> tu_usuario_id a = u) (trivia_usuarios db) = None"
    using find_tu_iff [of t u db] by blast
  then show "ver_trivia_jugador t u db
      = Inl (HTTPException HTTP_404_NOT_FOUND UsuarioNoAsignado)"
    using h by (simp add: ver_trivia_jugador_def)
next
  assume h: "fits_int64 t \<and> fits_int64 u \<and> (t, u) \<in> set (tu_pairs db)"
  then have "find (\<lambda>a. tu_trivia_id a = t \<and> tu_usuario_id a = u) (trivia_usuarios db) \<noteq> None"
    using find_tu_iff [of t u db] by blast
  then obtain a where
    a: "find (\<lambda>a. tu_trivia_id a = t \<and> tu_usuario_id a = u) (trivia_usuarios db) = Some a"
    by blast
  let ?tps = "filter (\<lambda>tp. tp_trivia_id tp = t) (trivia_preguntas db)"
  let ?js = "preguntas_jugador_loop db ?tps []"
  have r: "ver_trivia_jugador t u db = Inr ?js"
    using a h by (simp add: ver_trivia_jugador_def)
  have s: "\<forall>j \<in> set ?js. \<exists>q \<in> set (preguntas db). (t, prg_id q) \<in> set (tp_pairs db)
               \<and> j = \<lparr>pj_id = prg_id q, pj_texto_pregunta = prg_texto_pregunta q,
                       pj_opciones = prg_opciones q\<rparr>"
  proof
    fix j assume "j \<in> set ?js"
    from preguntas_jugador_loop_sound [OF this] obtain tp q where
      "tp \<in> set ?tps" "q \<in> set (preguntas db)" "prg_id q = tp_pregunta_id tp"
      "j = \<lparr>pj_id = prg_id q, pj_texto_pregunta = prg_texto_pregunta q,
             pj_opciones = prg_opciones q\<rparr>"
      by blast
    moreover from this have "(t, prg_id q) \<in> set (tp_pairs db)"
      by (force simp: tp_pairs_def)
    ultimately show "\<exists>q \<in> set (preguntas db). (t, prg_id q) \<in> set (tp_pairs db)
               \<and> j = \<lparr>pj_id = prg_id q, pj_texto_pregunta = prg_texto_pregunta q,
                       pj_opciones = prg_opciones q\<rparr>"
      by blast
  qed
  have c: "\<forall>q \<in> set (preguntas db). (t, prg_id q) \<in> set (tp_pairs db) \<longrightarrow>
               (\<exists>j \<in> set ?js. pj_id j = prg_id q)"
  proof (intro ballI impI)
    fix q assume q: "q \<in> set (preguntas db)" and l: "(t, prg_id q) \<in> set (tp_pairs db)"
    from l obtain tp where tp: "tp \<in> set ?tps" "tp_pregunta_id tp = prg_id q"
      by (auto simp: tp_pairs_def)
    have "tp_pregunta_id tp \<in> set (map prg_id (preguntas db))"
      using q tp(2) by simp
    from preguntas_jugador_loop_complete [OF tp(1) this] tp(2)
    show "\<exists>j \<in> set ?js. pj_id j = prg_id q" by simp
  qed
  from r s c show "\<exists>js. ver_trivia_jugador t u db = Inr js
         \<and> (\<forall>j \<in> set js. \<exists>q \<in> set (preguntas db). (t, prg_id q) \<in> set (tp_pairs db)
               \<and> j = \<lparr>pj_id = prg_id q, pj_texto_pregunta = prg_texto_pregunta q,
                       pj_opciones = prg_opciones q\<rparr>)
         \<and> (\<forall>q \<in> set (preguntas db). (t, prg_id q) \<in> set (tp_pairs db) \<longrightarrow>
               (\<exists>j \<in> set js. pj_id j = prg_id q))"
    by blast
next
  fix f g
  show "ver_trivia_jugador t u
               (db\<lparr>preguntas :=
                     map (\<lambda>q. q\<lparr>prg_respuesta_correcta := f q, prg_dificultad := g q\<rparr>)
                       (preguntas db)\<rparr>)
             = ver_trivia_jugador t u db"
    by (simp add: ver_trivia_jugador_def preguntas_jugador_loop_redact split: option.split)
qed

theorem ver_trivia_jugador_redacted_witness:
  "ver_trivia_jugador 1 99 demo_db = Inl (HTTPException HTTP_404_NOT_FOUND UsuarioNoAsignado)
   \<and> ver_trivia_jugador 1 2 demo_db
       = Inr [\<lparr>pj_id = 1, pj_texto_pregunta = ''Q1'',
                pj_opciones = [(''A'', ''x''), (''B'', ''y'')]\<rparr>,
              \<lparr>pj_id = 2, pj_texto_pregunta = ''Q2'',
                pj_opciones = [(''A'', ''x''), (''B'', ''y'')]\<rparr>]
   \<and> ver_trivia_jugador 1 2
        (demo_db\<lparr>preguntas :=
           map (\<lambda>q. q\<lparr>prg_respuesta_correcta := ''Z'', prg_dificultad := facil\<rparr>)
             (preguntas demo_db)\<rparr>)
       = ver_trivia_jugador 1 2 demo_db"
proof -
  have "fits_int64 1 \<and> fits_int64 99 \<and> (1, 99) \<notin> set (tu_pairs demo_db)"
    by (simp add: demo_db_keys fits_int64_def)
  with ver_trivia_jugador_redacted [of 1 99 demo_db]
  have a: "ver_trivia_jugador 1 99 demo_db
      = Inl (HTTPException HTTP_404_NOT_FOUND UsuarioNoAsignado)"
    by blast
  have b: "ver_trivia_jugador 1 2 demo_db
       = Inr [\<lparr>pj_id = 1, pj_texto_pregunta = ''Q1'',
                pj_opciones = [(''A'', ''x''), (''B'', ''y'')]\<rparr>,
              \<lparr>pj_id = 2, pj_texto_pregunta = ''Q2'',
                pj_opciones = [(''A'', ''x''), (''B'', ''y'')]\<rparr>]"
    by (simp add: ver_trivia_jugador_def demo_db_eq demo_db0_eq fits_int64_def)
  from ver_trivia_jugador_redacted [of 1 2 demo_db]
  have "\<forall>f g. ver_trivia_jugador 1 2
               (demo_db\<lparr>preguntas :=
                     map (\<lambda>q. q\<lparr>prg_respuesta_correcta := f q, prg_dificultad := g q\<rparr>)
                       (preguntas demo_db)\<rparr>)
             = ver_trivia_jugador 1 2 demo_db"
    by blast
  from this [rule_format, where f = "\<lambda>q. ''Z''" and g = "\<lambda>q. facil"]
  have c: "ver_trivia_jugador 1 2
        (demo_db\<lparr>preguntas :=
           map (\<lambda>q. q\<lparr>prg_respuesta_correcta := ''Z'', prg_dificultad := facil\<rparr>)
             (preguntas demo_db)\<rparr>)
       = ver_trivia_jugador 1 2 demo_db"
    by simp
  from a b c show ?thesis by blast
qed

subsection \<open>One answer per user, trivia and question\<close>

lemma responder_pregunta_ya_respondida:
  assumes "wf_db db" and "(pac_usuario_id b, t, pac_pregunta_id b) \<in> set (par_triples db)"
  shows "responder_pregunta now t b db
           = (Inl (HTTPException HTTP_400_BAD_REQUEST YaRespondida), db)"
proof -
  have pa: "participaciones_ok db" and lk: "links_ok db"
    using assms(1) by (simp_all add: wf_db_def)
  have tu: "(t, pac_usuario_id b) \<in> set (tu_pairs db)"
    and tp: "(t, pac_pregunta_id b) \<in> set (tp_pairs db)"
    and fits: "fits_int64 t" "fits_int64 (pac_usuario_id b)" "fits_int64 (pac_pregunta_id b)"
    using pa assms(2) by (auto simp: participaciones_ok_def)
  have tr: "t \<in> set (map trv_id (trivias db))"
    using lk tu by (auto simp: links_ok_def)
  show ?thesis
    using tr tu tp fits assms(2) by (simp add: responder_pregunta_flat)
qed

text \<open>
  C6. In every reachable state no two rows of \<open>participaciones\<close> have the same
  (usuario_id, trivia_id, pregunta_id). A submission for a triple that already has a row
  fails with 400 "Ya has respondido esta pregunta", whatever the stored answer was; in
  particular, after an accepted submission every further submission for the same triple
  fails so. An accepted submission appends one row and leaves the others as they were,
  and \<open>crear_usuario\<close>, \<open>crear_pregunta\<close> and \<open>crear_trivia\<close> do not touch the table.
\<close>

theorem participacion_unique:
  assumes "reachable db"
  shows "distinct (par_triples db)
       \<and> ((pac_usuario_id b, t, pac_pregunta_id b) \<in> set (par_triples db) \<longrightarrow>
            responder_pregunta now t b db
              = (Inl (HTTPException HTTP_400_BAD_REQUEST YaRespondida), db))
       \<and> (\<forall>r db'. responder_pregunta now t b db = (Inr r, db') \<longrightarrow>
            db' = db\<lparr>participaciones := participaciones db @ [r]\<rparr>
            \<and> (\<forall>now' b'. pac_usuario_id b' = pac_usuario_id b
                  \<and> pac_pregunta_id b' = pac_pregunta_id b \<longrightarrow>
                  responder_pregunta now' t b' db'
                    = (Inl (HTTPException HTTP_400_BAD_REQUEST YaRespondida), db')))
       \<and> participaciones (snd (crear_usuario usuario db)) = participaciones db
       \<and> participaciones (snd (crear_pregunta pregunta db)) = participaciones db
       \<and> participaciones (snd (crear_trivia lim now trivia db)) = participaciones db"
proof -
  have wf: "wf_db db" by (rule reachable_wf [OF assms])
  have c1: "distinct (par_triples db)"
    using wf by (simp add: wf_db_def participaciones_ok_def)
  have c2: "(pac_usuario_id b, t, pac_pregunta_id b) \<in> set (par_triples db) \<longrightarrow>
            responder_pregunta now t b db
              = (Inl (HTTPException HTTP_400_BAD_REQUEST YaRespondida), db)"
    using responder_pregunta_ya_respondida [OF wf] by blast
  have c3: "\<forall>r db'. responder_pregunta now t b db = (Inr r, db') \<longrightarrow>
            db' = db\<lparr>participaciones := participaciones db @ [r]\<rparr>
            \<and> (\<forall>now' b'. pac_usuario_id b' = pac_usuario_id b
                  \<and> pac_pregunta_id b' = pac_pregunta_id b \<longrightarrow>
                  responder_pregunta now' t b' db'
                    = (Inl (HTTPException HTTP_400_BAD_REQUEST YaRespondida), db'))"
  proof (intro allI impI)
    fix r db'
    assume h: "responder_pregunta now t b db = (Inr r, db')"
    note f = responder_pregunta_Inr [OF h]
    have "db' = snd (responder_pregunta now t b db)" using h by simp
    then have "reachable db'" using assms by (simp add: reachable_responder)
    then have wf': "wf_db db'" by (rule reachable_wf)
    have m: "(pac_usuario_id b, t, pac_pregunta_id b) \<in> set (par_triples db')"
      by (subst f(1)) (simp add: par_triples_def f(2,3,4))
    have "\<forall>now' b'. pac_usuario_id b' = pac_usuario_id b
                  \<and> pac_pregunta_id b' = pac_pregunta_id b \<longrightarrow>
                  responder_pregunta now' t b' db'
                    = (Inl (HTTPException HTTP_400_BAD_REQUEST YaRespondida), db')"
    proof (intro allI impI)
      fix now' and b' :: ParticipacionCreate
      assume e: "pac_usuario_id b' = pac_usuario_id b \<and> pac_pregunta_id b' = pac_pregunta_id b"
      then have "(pac_usuario_id b', t, pac_pregunta_id b') \<in> set (par_triples db')"
        using m by simp
      then show "responder_pregunta now' t b' db'
                    = (Inl (HTTPException HTTP_400_BAD_REQUEST YaRespondida), db')"
        by (rule responder_pregunta_ya_respondida [OF wf'])
    qed
    with f(1) show "db' = db\<lparr>participaciones := participaciones db @ [r]\<rparr>
            \<and> (\<forall>now' b'. pac_usuario_id b' = pac_usuario_id b
                  \<and> pac_pregunta_id b' = pac_pregunta_id b \<longrightarrow>
                  responder_pregunta now' t b' db'
                    = (Inl (HTTPException HTTP_400_BAD_REQUEST YaRespondida), db'))"
      by blast
  qed
  have c4: "participaciones (snd (crear_usuario usuario db)) = participaciones db"
    using crear_usuario_db [of usuario db] by auto
  have c5: "participaciones (snd (crear_pregunta pregunta db)) = participaciones db"
    using crear_pregunta_db [of pregunta db] by auto
  have c6: "participaciones (snd (crear_trivia lim now trivia db)) = participaciones db"
    by (simp add: crear_trivia_def Let_def)
  from c1 c2 c3 c4 c5 c6 show ?thesis by blast
qed

theorem participacion_unique_witness:
  "par_triples demo_db = [(1, 1, 1), (2, 1, 1), (3, 1, 1)]
   \<and> responder_pregunta 20 1 (respuesta 1 1 ''B'') demo_db
       = (Inl (HTTPException HTTP_400_BAD_REQUEST YaRespondida), demo_db)
   \<and> responder_pregunta 20 1 (respuesta 2 1 ''A'') demo_db
       = (Inl (HTTPException HTTP_400_BAD_REQUEST YaRespondida), demo_db)
   \<and> (\<exists>r db'. responder_pregunta 20 1 (respuesta 1 2 ''A'') demo_db = (Inr r, db')
         \<and> responder_pregunta 21 1 (respuesta 1 2 ''B'') db'
             = (Inl (HTTPException HTTP_400_BAD_REQUEST YaRespondida), db'))"
proof -
  have a: "(pac_usuario_id (respuesta 1 1 ''B''), 1, pac_pregunta_id (respuesta 1 1 ''B''))
      \<in> set (par_triples demo_db)"
    by (simp add: demo_db_keys respuesta_def)
  have b: "(pac_usuario_id (respuesta 2 1 ''A''), 1, pac_pregunta_id (respuesta 2 1 ''A''))
      \<in> set (par_triples demo_db)"
    by (simp add: demo_db_keys respuesta_def)
  from participacion_unique [OF reachable_demo_db, of "respuesta 1 1 ''B''" 1 20] a
  have c1: "responder_pregunta 20 1 (respuesta 1 1 ''B'') demo_db
       = (Inl (HTTPException HTTP_400_BAD_REQUEST YaRespondida), demo_db)"
    by blast
  from participacion_unique [OF reachable_demo_db, of "respuesta 2 1 ''A''" 1 20] b
  have c2: "responder_pregunta 20 1 (respuesta 2 1 ''A'') demo_db
       = (Inl (HTTPException HTTP_400_BAD_REQUEST YaRespondida), demo_db)"
    by blast
  obtain r db' where h: "responder_pregunta 20 1 (respuesta 1 2 ''A'') demo_db = (Inr r, db')"
    by (simp add: demo_db_eq demo_db0_eq responder_pregunta_def respuesta_def Let_def
          fits_int64_def)
  have e: "pac_usuario_id (respuesta 1 2 ''B'') = pac_usuario_id (respuesta 1 2 ''A'')
      \<and> pac_pregunta_id (respuesta 1 2 ''B'') = pac_pregunta_id (respuesta 1 2 ''A'')"
    by (simp add: respuesta_def)
  from participacion_unique [OF reachable_demo_db, of "respuesta 1 2 ''A''" 1 20] h e
  have c3: "responder_pregunta 21 1 (respuesta 1 2 ''B'') db'
             = (Inl (HTTPException HTTP_400_BAD_REQUEST YaRespondida), db')"
    by blast
  from demo_db_keys(4) c1 c2 h c3 show ?thesis by blast
qed

subsection \<open>The ranking of a trivia\<close>

lemma ranking_items_loop_ok:
  assumes "\<forall>a \<in> set asignaciones. tu_usuario_id a \<in> set (map usr_id (usuarios db))"
  shows "\<exists>items. ranking_items_loop db t asignaciones acc = Inr (acc @ items)
     \<and> map fst items = map tu_usuario_id asignaciones
     \<and> (\<forall>(u, n, p) \<in> set items.
          p = sum_list (map par_puntaje_obtenido
                (filter (\<lambda>x. par_trivia_id x = t \<and> par_usuario_id x = u) (participaciones db))))"
  using assms
proof (induction asignaciones arbitrary: acc)
  case Nil
  show ?case by simp
next
  case (Cons a rest)
  from Cons.prems have "tu_usuario_id a \<in> set (map usr_id (usuarios db))" by simp
  then obtain usuario where
    u: "find (\<lambda>x. usr_id x = tu_usuario_id a) (usuarios db) = Some usuario"
    using find_usuario_iff [of "tu_usuario_id a" db] by auto
  from find_SomeD [OF u] have uid: "usr_id usuario = tu_usuario_id a" by simp
  let ?p = "sum_list (map par_puntaje_obtenido
              (filter (\<lambda>x. par_trivia_id x = t \<and> par_usuario_id x = tu_usuario_id a)
                 (participaciones db)))"
  let ?e = "(tu_usuario_id a, usr_nombre usuario, ?p)"
  from Cons.prems have "\<forall>a \<in> set rest. tu_usuario_id a \<in> set (map usr_id (usuarios db))"
    by simp
  from Cons.IH [OF this, of "acc @ [?e]"] obtain items where
    i: "ranking_items_loop db t rest (acc @ [?e]) = Inr ((acc @ [?e]) @ items)"
      "map fst items = map tu_usuario_id rest"
      "\<forall>(u, n, p) \<in> set items.
          p = sum_list (map par_puntaje_obtenido
                (filter (\<lambda>x. par_trivia_id x = t \<and> par_usuario_id x = u) (participaciones db)))"
    by blast
  have "ranking_items_loop db t (a # rest) acc = Inr (acc @ (?e # items))"
    using u uid i(1) by (simp add: Let_def)
  moreover have "map fst (?e # items) = map tu_usuario_id (a # rest)"
    using i(2) by simp
  moreover have "\<forall>(u, n, p) \<in> set (?e # items).
          p = sum_list (map par_puntaje_obtenido
                (filter (\<lambda>x. par_trivia_id x = t \<and> par_usuario_id x = u) (participaciones db)))"
    using i(3) by simp
  ultimately show ?case by blast
qed

lemma ranking_final_loop_posicion:
  "map ri_posicion (ranking_final_loop pos items acc)
   = map ri_posicion acc @ map (\<lambda>i. pos + int i) [0..<length items]"
proof (induction items arbitrary: pos acc)
  case Nil
  show ?case by simp
next
  case (Cons e items)
  obtain u n p where e: "e = (u, n, p)" by (cases e)
  have "map (\<lambda>i. pos + int i) [0..<length (e # items)]
      = pos # map (\<lambda>i. pos + 1 + int i) [0..<length items]"
    by (simp add: map_upt_Suc del: upt_Suc)
  then show ?case
    by (simp add: e Cons.IH del: upt_Suc)
qed

lemma ranking_final_loop_entries:
  "map (\<lambda>r. (ri_usuario_id r, ri_usuario_nombre r, ri_puntaje_total r))
     (ranking_final_loop pos items acc)
   = map (\<lambda>r. (ri_usuario_id r, ri_usuario_nombre r, ri_puntaje_total r)) acc @ items"
proof (induction items arbitrary: pos acc)
  case Nil
  show ?case by simp
next
  case (Cons e items)
  obtain u n p where e: "e = (u, n, p)" by (cases e)
  show ?case by (simp add: e Cons.IH)
qed

lemma sort_reverse_mset: "mset (sort_reverse items) = mset items"
  by (simp add: sort_reverse_def)

lemma sort_reverse_sorted:
  "sorted_wrt (\<lambda>a b. b \<le> a) (map (\<lambda>(u, n, p). p) (sort_reverse items))"
proof -
  have "sorted (map (\<lambda>(u, n, p). - p) (sort_reverse items))"
    unfolding sort_reverse_def by (rule sorted_sort_key)
  then have "sorted_wrt (\<lambda>a b. (case a of (u, n, p) \<Rightarrow> - p) \<le> (case b of (u, n, p) \<Rightarrow> - p))
      (sort_reverse items)"
    by (simp add: sorted_wrt_map)
  then have "sorted_wrt (\<lambda>a b. (case b of (u, n, p) \<Rightarrow> p) \<le> (case a of (u, n, p) \<Rightarrow> p))
      (sort_reverse items)"
    by (rule sorted_wrt_mono_rel [rotated]) auto
  then show ?thesis by (simp add: sorted_wrt_map)
qed

lemma distinct_usuarios_of_trivia:
  "distinct (map (\<lambda>a. (tu_trivia_id a, tu_usuario_id a)) xs) \<Longrightarrow>
   distinct (map tu_usuario_id (filter (\<lambda>a. tu_trivia_id a = t) xs))"
  by (induction xs) (auto simp: image_iff)


text \<open>
  C3, as stated, fails: the trivia id \<open>2 ^ 63\<close> names no trivia, yet the ranking does
  not end in 404. The query cannot bind the id and raises \<open>OverflowError\<close>.
\<close>

theorem obtener_ranking_sorted_counterexample:
  "2 ^ 63 \<notin> set (map trv_id (trivias demo_db))
   \<and> obtener_ranking (2 ^ 63) demo_db = Inl OverflowError"
  by (simp add: obtener_ranking_def fits_int64_def demo_db_keys)

text \<open>
  C3, amended. In every reachable state and for every trivia id that is a signed 64-bit
  integer, \<open>obtener_ranking\<close> fails with 404 when the trivia does not exist. When it
  exists, the ranking has exactly one entry per user assigned to the trivia (the user ids
  of the entries are those of the assignment rows, and no id occurs twice); the
  \<open>puntaje_total\<close> of an entry is the sum of \<open>puntaje_obtenido\<close> over the answers of
  that user in that trivia (0 when there are none); the entries are in descending order
  of \<open>puntaje_total\<close>; and the positions are 1, 2, ..., N in that order, ties included.
\<close>

theorem obtener_ranking_sorted:
  assumes "reachable db"
  shows "(fits_int64 t \<and> t \<notin> set (map trv_id (trivias db)) \<longrightarrow>
            obtener_ranking t db
              = Inl (HTTPException HTTP_404_NOT_FOUND (TriviaNoEncontrada t)))
       \<and> (fits_int64 t \<and> t \<in> set (map trv_id (trivias db)) \<longrightarrow>
            (\<exists>r. obtener_ranking t db = Inr r \<and> rr_trivia_id r = t
               \<and> mset (map ri_usuario_id (rr_ranking r))
                   = mset (map tu_usuario_id
                       (filter (\<lambda>a. tu_trivia_id a = t) (trivia_usuarios db)))
               \<and> distinct (map ri_usuario_id (rr_ranking r))
               \<and> (\<forall>i \<in> set (rr_ranking r).
                     ri_puntaje_total i
                       = sum_list (map par_puntaje_obtenido
                           (filter (\<lambda>p. par_trivia_id p = t
                                       \<and> par_usuario_id p = ri_usuario_id i)
                              (participaciones db))))
               \<and> sorted_wrt (\<lambda>a b. b \<le> a) (map ri_puntaje_total (rr_ranking r))
               \<and> map ri_posicion (rr_ranking r)
                   = map int [1..<Suc (length (rr_ranking r))]))"
proof (intro conjI impI)
  assume h: "fits_int64 t \<and> t \<notin> set (map trv_id (trivias db))"
  then have "find (\<lambda>tr. trv_id tr = t) (trivias db) = None"
    using find_trivia_iff [of t db] by blast
  then show "obtener_ranking t db
      = Inl (HTTPException HTTP_404_NOT_FOUND (TriviaNoEncontrada t))"
    using h by (simp add: obtener_ranking_def)
next
  assume h: "fits_int64 t \<and> t \<in> set (map trv_id (trivias db))"
  then obtain trivia where tr: "find (\<lambda>tr. trv_id tr = t) (trivias db) = Some trivia"
    using find_trivia_iff [of t db] by auto
  have wf: "wf_db db" by (rule reachable_wf [OF assms])
  then have lk: "links_ok db" by (simp add: wf_db_def)
  let ?as = "filter (\<lambda>a. tu_trivia_id a = t) (trivia_usuarios db)"
  have ex: "\<forall>a \<in> set ?as. tu_usuario_id a \<in> set (map usr_id (usuarios db))"
    using lk by (auto simp: links_ok_def tu_pairs_def)
  from ranking_items_loop_ok [OF ex, of t "[]"] obtain items where
    it: "ranking_items_loop db t ?as [] = Inr items"
      "map fst items = map tu_usuario_id ?as"
      "\<forall>(u, n, p) \<in> set items.
          p = sum_list (map par_puntaje_obtenido
                (filter (\<lambda>x. par_trivia_id x = t \<and> par_usuario_id x = u) (participaciones db)))"
    by auto
  let ?sorted = "sort_reverse items"
  let ?rk = "ranking_final_loop 1 ?sorted []"
  let ?r = "\<lparr>rr_trivia_id = t, rr_trivia_nombre = trv_nombre trivia, rr_ranking = ?rk\<rparr>"
  have res: "obtener_ranking t db = Inr ?r"
    using tr it(1) h by (simp add: obtener_ranking_def)
  have ent: "map (\<lambda>r. (ri_usuario_id r, ri_usuario_nombre r, ri_puntaje_total r)) ?rk = ?sorted"
    using ranking_final_loop_entries [of 1 ?sorted "[]"] by simp
  have uids: "map ri_usuario_id ?rk = map fst ?sorted"
  proof -
    have "map ri_usuario_id ?rk
        = map fst (map (\<lambda>r. (ri_usuario_id r, ri_usuario_nombre r, ri_puntaje_total r)) ?rk)"
      by simp
    then show ?thesis by (simp only: ent)
  qed
  have pts: "map ri_puntaje_total ?rk = map (\<lambda>(u, n, p). p) ?sorted"
  proof -
    have "map ri_puntaje_total ?rk
        = map (\<lambda>(u, n, p). p)
            (map (\<lambda>r. (ri_usuario_id r, ri_usuario_nombre r, ri_puntaje_total r)) ?rk)"
      by simp
    then show ?thesis by (simp only: ent)
  qed
  have len: "length ?rk = length ?sorted"
    using arg_cong [OF ent, of length] by simp
  have m: "mset (map ri_usuario_id ?rk) = mset (map tu_usuario_id ?as)"
  proof -
    have "mset (map fst ?sorted) = image_mset fst (mset ?sorted)" by simp
    also have "\<dots> = image_mset fst (mset items)" by (simp only: sort_reverse_mset)
    also have "\<dots> = mset (map fst items)" by simp
    finally show ?thesis by (simp only: uids it(2))
  qed
  have das: "distinct (map tu_usuario_id ?as)"
    using lk by (intro distinct_usuarios_of_trivia) (simp add: links_ok_def tu_pairs_def)
  have d: "distinct (map ri_usuario_id ?rk)"
    using m das by (metis mset_eq_imp_distinct_iff)
  have tot: "\<forall>i \<in> set ?rk.
      ri_puntaje_total i
        = sum_list (map par_puntaje_obtenido
            (filter (\<lambda>p. par_trivia_id p = t \<and> par_usuario_id p = ri_usuario_id i)
               (participaciones db)))"
  proof
    fix i assume "i \<in> set ?rk"
    then have "(ri_usuario_id i, ri_usuario_nombre i, ri_puntaje_total i)
        \<in> set (map (\<lambda>r. (ri_usuario_id r, ri_usuario_nombre r, ri_puntaje_total r)) ?rk)"
      by (simp add: image_iff) blast
    then have "(ri_usuario_id i, ri_usuario_nombre i, ri_puntaje_total i) \<in> set ?sorted"
      by (simp only: ent)
    then have "(ri_usuario_id i, ri_usuario_nombre i, ri_puntaje_total i) \<in> set items"
      using sort_reverse_mset [of items] by (metis mset_eq_setD)
    with it(3) show "ri_puntaje_total i
        = sum_list (map par_puntaje_obtenido
            (filter (\<lambda>p. par_trivia_id p = t \<and> par_usuario_id p = ri_usuario_id i)
               (participaciones db)))"
      by blast
  qed
  have so: "sorted_wrt (\<lambda>a b. b \<le> a) (map ri_puntaje_total ?rk)"
    by (simp only: pts sort_reverse_sorted)
  have "map ri_posicion ?rk = map (\<lambda>i. 1 + int i) [0..<length ?sorted]"
    using ranking_final_loop_posicion [of 1 ?sorted "[]"] by simp
  also have "\<dots> = map int (map Suc [0..<length ?sorted])" by simp
  also have "map Suc [0..<length ?sorted] = [1..<Suc (length ?sorted)]"
    by (simp only: map_Suc_upt One_nat_def)
  finally have po: "map ri_posicion ?rk = map int [1..<Suc (length ?rk)]"
    by (simp only: len)
  from res m d tot so po
  show "\<exists>r. obtener_ranking t db = Inr r \<and> rr_trivia_id r = t
               \<and> mset (map ri_usuario_id (rr_ranking r))
                   = mset (map tu_usuario_id
                       (filter (\<lambda>a. tu_trivia_id a = t) (trivia_usuarios db)))
               \<and> distinct (map ri_usuario_id (rr_ranking r))
               \<and> (\<forall>i \<in> set (rr_ranking r).
                     ri_puntaje_total i
                       = sum_list (map par_puntaje_obtenido
                           (filter (\<lambda>p. par_trivia_id p = t
                                       \<and> par_usuario_id p = ri_usuario_id i)
                              (participaciones db))))
               \<and> sorted_wrt (\<lambda>a b. b \<le> a) (map ri_puntaje_total (rr_ranking r))
               \<and> map ri_posicion (rr_ranking r)
                   = map int [1..<Suc (length (rr_ranking r))]"
    by (intro exI [of _ ?r]) simp
qed

theorem obtener_ranking_sorted_witness:
  "obtener_ranking 9 demo_db = Inl (HTTPException HTTP_404_NOT_FOUND (TriviaNoEncontrada 9))
   \<and> obtener_ranking 1 demo_db
       = Inr \<lparr>rr_trivia_id = 1, rr_trivia_nombre = ''RRHH'',
              rr_ranking =
                [\<lparr>ri_posicion = 1, ri_usuario_id = 2, ri_usuario_nombre = ''Beto'',
                   ri_puntaje_total = 2\<rparr>,
                 \<lparr>ri_posicion = 2, ri_usuario_id = 3, ri_usuario_nombre = ''Caro'',
                   ri_puntaje_total = 2\<rparr>,
                 \<lparr>ri_posicion = 3, ri_usuario_id = 1, ri_usuario_nombre = ''Ana'',
                   ri_puntaje_total = 0\<rparr>]\<rparr>
   \<and> (\<exists>r. obtener_ranking 1 demo_db = Inr r
         \<and> map ri_posicion (rr_ranking r) = map int [1..<Suc (length (rr_ranking r))])"
proof -
  have a: "fits_int64 9 \<and> 9 \<notin> set (map trv_id (trivias demo_db))"
    and b: "fits_int64 1 \<and> 1 \<in> set (map trv_id (trivias demo_db))"
    by (simp_all only: demo_db_keys) (simp_all add: fits_int64_def)
  from obtener_ranking_sorted [OF reachable_demo_db, of 9] a
  have c1: "obtener_ranking 9 demo_db
      = Inl (HTTPException HTTP_404_NOT_FOUND (TriviaNoEncontrada 9))"
    by blast
  have c2: "obtener_ranking 1 demo_db
       = Inr \<lparr>rr_trivia_id = 1, rr_trivia_nombre = ''RRHH'',
              rr_ranking =
                [\<lparr>ri_posicion = 1, ri_usuario_id = 2, ri_usuario_nombre = ''Beto'',
                   ri_puntaje_total = 2\<rparr>,
                 \<lparr>ri_posicion = 2, ri_usuario_id = 3, ri_usuario_nombre = ''Caro'',
                   ri_puntaje_total = 2\<rparr>,
                 \<lparr>ri_posicion = 3, ri_usuario_id = 1, ri_usuario_nombre = ''Ana'',
                   ri_puntaje_total = 0\<rparr>]\<rparr>"
    by (simp add: obtener_ranking_def demo_db_eq demo_db0_eq sort_reverse_def Let_def
          fits_int64_def)
  from obtener_ranking_sorted [OF reachable_demo_db, of 1] b
  have c3: "\<exists>r. obtener_ranking 1 demo_db = Inr r
         \<and> map ri_posicion (rr_ranking r) = map int [1..<Suc (length (rr_ranking r))]"
    by blast
  from c1 c2 c3 show ?thesis by blast
qed

end
